theory Spec2Isabelle
  imports Complex_Main
begin

section \<open>Numbers\<close>

text \<open>
  A JavaScript \<open>number\<close> is a double. Finite doubles are idealised as reals
  (no rounding, no overflow to an infinity); \<open>NaN\<close> is kept as a value of its own,
  because the parser produces it from \<open>undefined\<close> table entries and from
  non-numeric strings. Arithmetic with \<open>NaN\<close> gives \<open>NaN\<close>.
\<close>

datatype jsnum = Num real | NaN

fun jadd :: "jsnum \<Rightarrow> jsnum \<Rightarrow> jsnum" where
  "jadd (Num a) (Num b) = Num (a + b)"
| "jadd _ _ = NaN"

fun jsub :: "jsnum \<Rightarrow> jsnum \<Rightarrow> jsnum" where
  "jsub (Num a) (Num b) = Num (a - b)"
| "jsub _ _ = NaN"

fun jmul :: "jsnum \<Rightarrow> jsnum \<Rightarrow> jsnum" where
  "jmul (Num a) (Num b) = Num (a * b)"
| "jmul _ _ = NaN"

section \<open>Score layout model (scoreParser.ts)\<close>

definition PAGE_W :: real where "PAGE_W = 1365"
definition PAGE_H :: real where "PAGE_H = 1922"
definition LEFT_MARGIN :: int where "LEFT_MARGIN = 130"
definition TOP_MARGIN :: int where "TOP_MARGIN = 97"
definition STAFF_H :: int where "STAFF_H = 40"

definition STAFF_TOPS :: "real list list" where
  "STAFF_TOPS = [[333, 445, 556], [785, 897, 1008]]"

definition MEASURE_WIDTHS :: "int list" where
  "MEASURE_WIDTHS = [292, 226, 295, 293, 378, 306, 340, 83]"

definition SYS_OF_MEASURE :: "nat \<Rightarrow> nat" where
  "SYS_OF_MEASURE i = (if i < 4 then 0 else 1)"

text \<open>
  \<open>Array.prototype.slice(start, end)\<close> on indices that are natural numbers: the
  elements \<open>start \<le> j < min end length\<close>, none when \<open>end \<le> start\<close>.
\<close>

definition slice :: "'a list \<Rightarrow> nat \<Rightarrow> nat \<Rightarrow> 'a list" where
  "slice xs start end = take (end - start) (drop start xs)"

text \<open>\<open>reduce((a, b) => a + b, 0)\<close>: a left fold from 0.\<close>

definition reduce_add :: "int list \<Rightarrow> int" where
  "reduce_add xs = foldl (\<lambda>a b. a + b) 0 xs"

definition measureStartX :: "nat \<Rightarrow> int" where
  "measureStartX measureIdx =
     (let sysStart = (if measureIdx < 4 then 0 else 4);
          cumW = reduce_add (slice MEASURE_WIDTHS sysStart measureIdx)
      in LEFT_MARGIN + cumW)"

text \<open>
  The specification's wording of the same quantity: the measures that precede
  measure \<open>i\<close> and lie in the system of measure \<open>i\<close>, and the sum of their widths.
\<close>

definition precedingInOwnSystem :: "nat \<Rightarrow> nat list" where
  "precedingInOwnSystem i = filter (\<lambda>j. SYS_OF_MEASURE j = SYS_OF_MEASURE i) [0..<i]"

definition specMeasureStartX :: "nat \<Rightarrow> int" where
  "specMeasureStartX i = 130 + sum_list (map (\<lambda>j. MEASURE_WIDTHS ! j) (precedingInOwnSystem i))"

section \<open>Pitch to staff offset (scoreParser.ts)\<close>

text \<open>
  \<open>STEP_NUM\<close> is an object literal read with \<open>STEP_NUM[step]\<close>. A key outside the
  seven own keys reads \<open>undefined\<close> (or, for the name of a member inherited from
  \<open>Object.prototype\<close>, an object); in both cases the arithmetic of
  \<open>pitchToYOffset\<close> ends in \<open>NaN\<close>, so the table is a partial map and a miss is \<open>NaN\<close>.
\<close>

definition STEP_NUM :: "string \<rightharpoonup> real" where
  "STEP_NUM = map_of [(''C'', 0), (''D'', 1), (''E'', 2), (''F'', 3), (''G'', 4), (''A'', 5), (''B'', 6)]"

definition stepNumber :: "string \<Rightarrow> jsnum" where
  "stepNumber step = (case STEP_NUM step of None \<Rightarrow> NaN | Some k \<Rightarrow> Num k)"

definition pitchToYOffset :: "string \<Rightarrow> jsnum \<Rightarrow> nat \<Rightarrow> jsnum" where
  "pitchToYOffset step octave partIndex =
     (let p = jadd (jmul octave (Num 7)) (stepNumber step)
      in if partIndex = 2
         then jsub (Num 130) (jmul (Num 5) p)
         else jsub (Num 155) (jmul (Num 5) p))"

text \<open>The specification's \<open>stepIndex\<close>: the position of the step in C, D, E, F, G, A, B.\<close>

definition stepNames :: "string list" where
  "stepNames = [''C'', ''D'', ''E'', ''F'', ''G'', ''A'', ''B'']"

fun index_of :: "'a \<Rightarrow> 'a list \<Rightarrow> nat" where
  "index_of x [] = 0"
| "index_of x (y # ys) = (if x = y then 0 else Suc (index_of x ys))"

definition stepIndex :: "string \<Rightarrow> int" where
  "stepIndex step = int (index_of step stepNames)"

section \<open>Mock confidence (scoreParser.ts)\<close>

text \<open>
  \<open>Math.sin\<close>, \<open>Math.floor\<close> and \<open>Math.pow\<close> are the real functions \<open>sin\<close>,
  \<open>floor\<close> and \<open>powr\<close> (\<open>0 powr y = 0\<close>, as \<open>Math.pow(0, 0.55)\<close>).
\<close>

definition mockConfidence :: "int \<Rightarrow> int \<Rightarrow> int \<Rightarrow> real" where
  "mockConfidence partIdx measureIdx noteIdx =
     (let seed = partIdx * 1000 + measureIdx * 100 + noteIdx;
          x = sin (real_of_int seed * 127.1 + 311.7) * 43758.5453123;
          r = x - real_of_int \<lfloor>x\<rfloor>
      in 0.52 + 0.48 * (r powr 0.55))"

section \<open>Calibration transform (noteRenderer)\<close>

definition applyCalib :: "real \<Rightarrow> real \<Rightarrow> real \<Rightarrow> real" where
  "applyCalib raw scale offset = raw * scale + offset"

text \<open>
  A zero scale is outside the model: JavaScript divides to an infinity or \<open>NaN\<close>,
  HOL's \<open>x / 0\<close> is 0. The properties of \<open>inverseCalib\<close> below assume nonzero scales.
\<close>

definition inverseCalib :: "real \<Rightarrow> real \<Rightarrow> real \<Rightarrow> real" where
  "inverseCalib px scale offset = (px - offset) / scale"

section \<open>Note records (types.ts)\<close>

text \<open>
  \<open>NoteType\<close> is the union of seven string literals. At run time the field can also
  hold a member that \<open>normaliseNoteType\<close> read from \<open>Object.prototype\<close> (see there);
  \<open>Inherited k\<close> stands for the member found under the key \<open>k\<close>.
\<close>

datatype NoteType = Whole | Half | Quarter | Eighth | T16th | T32nd | T64th | Inherited string

datatype StemDir = StemUp | StemDown | StemNone

datatype NoteStatus = Unreviewed | Verified | Corrected

text \<open>
  The record is polymorphic in the type of its \<open>number\<close> fields: the parser produces
  notes over \<open>jsnum\<close>, the renderer and the hit-tester are modelled on notes whose
  numbers are finite, over \<open>real\<close>.
\<close>

record 'n NoteData =
  noteId :: string
  step :: string
  octave :: 'n
  alter :: 'n
  noteType :: NoteType
  absX :: 'n
  absY :: 'n
  stemDir :: StemDir
  confidence :: 'n
  partIndex :: nat
  measureNum :: string
  measureIndex :: nat
  systemIndex :: nat
  isRest :: bool
  status :: NoteStatus

record CalibrationState =
  offsetX :: real
  offsetY :: real
  scaleX :: real
  scaleY :: real
  noteScale :: real

section \<open>Overlay renderer (noteRenderer)\<close>

text \<open>
  The canvas context is modelled by the sequence of calls made on it. Setting a
  property (\<open>fillStyle\<close>, \<open>strokeStyle\<close>, \<open>lineWidth\<close>, \<open>font\<close>, \<open>textAlign\<close>,
  \<open>textBaseline\<close>) is a call as well. \<open>Font s\<close> is the font string
  \<open>bold <s>px serif\<close>.
\<close>

datatype glyph = FlatSign | SharpSign

datatype cmd =
    ClearRect real real real real
  | Save
  | Restore
  | Translate real real
  | Rotate real
  | BeginPath
  | Ellipse real real real real real real real
  | FillStyle string
  | StrokeStyle string
  | LineWidth real
  | Fill
  | Stroke
  | MoveTo real real
  | LineTo real real
  | BezierCurveTo real real real real real real
  | Font real
  | TextAlign string
  | TextBaseline string
  | FillText glyph real real









definition ledgerLine :: "real \<Rightarrow> real \<Rightarrow> real \<Rightarrow> cmd list" where
  "ledgerLine cx ledgerW ly = [BeginPath, MoveTo (cx - ledgerW) ly, LineTo (cx + ledgerW) ly, Stroke]"

text \<open>
  The two \<open>while\<close> loops of \<open>drawLedgerLines\<close>. They step \<open>ly\<close> by \<open>lineSpacing\<close> and
  need not end (a spacing that is not positive never leaves the loop), so each is a
  partial function: \<open>None\<close> is a run that does not return.
\<close>

partial_function (option) ledgerAbove :: "real \<Rightarrow> real \<Rightarrow> real \<Rightarrow> real \<Rightarrow> real \<Rightarrow> cmd list option" where
  "ledgerAbove cx ledgerW cy lineSpacing ly =
     (if ly \<ge> cy - lineSpacing * 0.4
      then Option.bind (ledgerAbove cx ledgerW cy lineSpacing (ly - lineSpacing))
             (\<lambda>rest. Some (ledgerLine cx ledgerW ly @ rest))
      else Some [])"

partial_function (option) ledgerBelow :: "real \<Rightarrow> real \<Rightarrow> real \<Rightarrow> real \<Rightarrow> real \<Rightarrow> cmd list option" where
  "ledgerBelow cx ledgerW cy lineSpacing ly =
     (if ly \<le> cy + lineSpacing * 0.4
      then Option.bind (ledgerBelow cx ledgerW cy lineSpacing (ly + lineSpacing))
             (\<lambda>rest. Some (ledgerLine cx ledgerW ly @ rest))
      else Some [])"

definition drawLedgerLines ::
  "real \<Rightarrow> real \<Rightarrow> real \<Rightarrow> real \<Rightarrow> real \<Rightarrow> real \<Rightarrow> string \<Rightarrow> cmd list option" where
  "drawLedgerLines cx cy staffTop staffBottom lineSpacing rx color =
     (let ledgerW = rx * 2.4
      in Option.bind
           (if cy < staffTop - lineSpacing * 0.4
            then ledgerAbove cx ledgerW cy lineSpacing (staffTop - lineSpacing)
            else Some [])
           (\<lambda>above.
         Option.bind
           (if cy > staffBottom + lineSpacing * 0.4
            then ledgerBelow cx ledgerW cy lineSpacing (staffBottom + lineSpacing)
            else Some [])
           (\<lambda>below.
         Some ([StrokeStyle color, LineWidth (max 1 (rx * 0.2))] @ above @ below))))"












text \<open>
  What a trace shows: the centres of the heads (each head is drawn after a
  \<open>translate\<close> to its centre, the only use of \<open>translate\<close>), the radii of the head
  ellipses, and the heights of the ledger lines a call of \<open>drawLedgerLines\<close> draws.
\<close>

fun headCenters :: "cmd list \<Rightarrow> (real \<times> real) list" where
  "headCenters [] = []"
| "headCenters (Translate x y # cs) = (x, y) # headCenters cs"
| "headCenters (c # cs) = headCenters cs"

fun headRadii :: "cmd list \<Rightarrow> (real \<times> real) list" where
  "headRadii [] = []"
| "headRadii (Ellipse x y rx ry rot a0 a1 # cs) = (rx, ry) # headRadii cs"
| "headRadii (c # cs) = headRadii cs"

fun lineYs :: "cmd list \<Rightarrow> real list" where
  "lineYs [] = []"
| "lineYs (MoveTo x y # cs) = y # lineYs cs"
| "lineYs (c # cs) = lineYs cs"


text \<open>A trace that ends with a \<open>moveTo\<close> leaves a stroke open.\<close>

fun isMoveTo :: "cmd \<Rightarrow> bool" where
  "isMoveTo (MoveTo x y) = True"
| "isMoveTo c = False"

definition openEnd :: "cmd list \<Rightarrow> bool" where
  "openEnd cs = (cs \<noteq> [] \<and> isMoveTo (last cs))"

section \<open>Hit test (noteRenderer)\<close>

text \<open>
  The loop of \<open>findNoteAt\<close> carries \<open>best\<close> and \<open>bestDist\<close>; \<open>hitStep\<close> is its body
  for one note, with \<open>rawPx\<close>, \<open>rawPy\<close> the inverse-calibrated query point.
\<close>

definition hitStep ::
  "real \<Rightarrow> real \<Rightarrow> real \<Rightarrow> real \<Rightarrow> real NoteData option \<times> real \<Rightarrow> real NoteData
   \<Rightarrow> real NoteData option \<times> real" where
  "hitStep sx sy rawPx rawPy acc note =
     (if isRest note then acc
      else
        let dx = absX note * sx - rawPx;
            dy = absY note * sy - rawPy;
            d2 = dx * dx + dy * dy
        in if d2 < snd acc then (Some note, d2) else acc)"

definition findNoteAt ::
  "real NoteData list \<Rightarrow> real \<Rightarrow> real \<Rightarrow> real \<Rightarrow> real \<Rightarrow> CalibrationState \<Rightarrow> real
   \<Rightarrow> real NoteData option" where
  "findNoteAt notes px py canvasW canvasH calibration radius =
     (let sx = canvasW / PAGE_W;
          sy = canvasH / PAGE_H;
          rawPx = inverseCalib px (scaleX calibration) (offsetX calibration);
          rawPy = inverseCalib py (scaleY calibration) (offsetY calibration)
      in fst (foldl (hitStep sx sy rawPx rawPy) (None, radius * radius) notes))"

text \<open>
  The specification's distance: the squared Euclidean distance between a note's raw
  (page-projected, not calibrated) position and the inverse-calibrated query point.
\<close>

definition rawDist2 ::
  "real \<Rightarrow> real \<Rightarrow> CalibrationState \<Rightarrow> real \<Rightarrow> real \<Rightarrow> real NoteData \<Rightarrow> real" where
  "rawDist2 canvasW canvasH calibration px py note =
     (absX note * (canvasW / PAGE_W) - (px - offsetX calibration) / scaleX calibration)\<^sup>2
     + (absY note * (canvasH / PAGE_H) - (py - offsetY calibration) / scaleY calibration)\<^sup>2"

section \<open>JSON values and the JavaScript operations the parser applies to them\<close>

text \<open>
  \<open>parseScore\<close> receives the result of \<open>JSON.parse\<close>; the interfaces \<open>RawScore\<close>,
  \<open>RawPart\<close>, \<open>RawMeasure\<close>, \<open>RawNote\<close> are erased at run time, so the argument is
  any JSON value. \<open>JObj\<close> lists the own properties of an object; \<open>map_of\<close> reads them.
  \<open>undefined\<close> is not a JSON value: the result of a property read is a
  \<open>json option\<close>, with \<open>None\<close> for \<open>undefined\<close>.
\<close>

datatype json =
    JNull
  | JBool bool
  | JNum real
  | JStr string
  | JArr "json list"
  | JObj "(string \<times> json) list"

datatype error = NotPartwise | TypeError

definition bindE :: "error + 'a \<Rightarrow> ('a \<Rightarrow> error + 'b) \<Rightarrow> error + 'b" where
  "bindE m f = (case m of Inl e \<Rightarrow> Inl e | Inr a \<Rightarrow> f a)"

text \<open>\<open>v == null\<close>: the value is \<open>null\<close> or \<open>undefined\<close>.\<close>

fun nullish :: "json option \<Rightarrow> bool" where
  "nullish None = True"
| "nullish (Some JNull) = True"
| "nullish (Some v) = False"

text \<open>\<open>!v\<close> is \<open>\<not> truthy v\<close>.\<close>

fun truthy :: "json option \<Rightarrow> bool" where
  "truthy None = False"
| "truthy (Some JNull) = False"
| "truthy (Some (JBool b)) = b"
| "truthy (Some (JNum r)) = (r \<noteq> 0)"
| "truthy (Some (JStr s)) = (s \<noteq> [])"
| "truthy (Some (JArr xs)) = True"
| "truthy (Some (JObj kvs)) = True"

text \<open>
  \<open>v.k\<close> on a value that is not \<open>null\<close>, for the keys the parser reads. None of them
  is an array index, \<open>length\<close>, or the name of a member of \<open>Object.prototype\<close>,
  \<open>Array.prototype\<close>, \<open>String.prototype\<close>, \<open>Number.prototype\<close> or
  \<open>Boolean.prototype\<close>, so only an object can have the property.
\<close>

fun field :: "json \<Rightarrow> string \<Rightarrow> json option" where
  "field (JObj kvs) k = map_of kvs k"
| "field v k = None"

text \<open>\<open>v?.k\<close>: \<open>undefined\<close> on \<open>null\<close> and \<open>undefined\<close>.\<close>

definition optField :: "json option \<Rightarrow> string \<Rightarrow> json option" where
  "optField v k = (case v of None \<Rightarrow> None | Some JNull \<Rightarrow> None | Some w \<Rightarrow> field w k)"

text \<open>\<open>v.k\<close>: a \<open>TypeError\<close> on \<open>null\<close> and \<open>undefined\<close>.\<close>

definition getField :: "json option \<Rightarrow> string \<Rightarrow> error + json option" where
  "getField v k = (if nullish v then Inl TypeError else Inr (optField v k))"

text \<open>\<open>a ?? b\<close>.\<close>

definition orElse :: "json option \<Rightarrow> json option \<Rightarrow> json option" where
  "orElse a b = (if nullish a then b else a)"

text \<open>\<open>xs[i]\<close> on an array: \<open>undefined\<close> outside it.\<close>

definition nthOpt :: "'a list \<Rightarrow> nat \<Rightarrow> 'a option" where
  "nthOpt xs i = (if i < length xs then Some (xs ! i) else None)"

definition toArray :: "json option \<Rightarrow> json list" where
  "toArray v = (if nullish v then []
                else case v of Some (JArr xs) \<Rightarrow> xs | Some w \<Rightarrow> [w] | None \<Rightarrow> [])"

text \<open>
  The conversions between strings and numbers are the host's: \<open>stringToNumber\<close> is
  \<open>Number\<close> on a string, \<open>numberToString\<close> is \<open>String\<close> on a number. The
  development holds for every such pair.
\<close>

record host =
  stringToNumber :: "string \<Rightarrow> jsnum"
  numberToString :: "real \<Rightarrow> string"

text \<open>\<open>Array.prototype.join\<close> with the separator \<open>","\<close>.\<close>

fun joinComma :: "string list \<Rightarrow> string" where
  "joinComma [] = []"
| "joinComma [s] = s"
| "joinComma (s # t # ss) = s @ '','' @ joinComma (t # ss)"

text \<open>The results of a list of steps, or the error of the first step that fails.\<close>

fun sequenceE :: "(error + 'a) list \<Rightarrow> error + 'a list" where
  "sequenceE [] = Inr []"
| "sequenceE (m # ms) = bindE m (\<lambda>a. bindE (sequenceE ms) (\<lambda>as. Inr (a # as)))"

text \<open>
  \<open>String(v)\<close>. An object is converted by its \<open>toString\<close> method. A parsed object
  inherits the one of \<open>Object.prototype\<close>, which gives \<open>[object Object]\<close>, unless it
  has an own property \<open>toString\<close>: that is a JSON value, not a function, the inherited
  \<open>valueOf\<close> returns the object itself, and the conversion throws a \<open>TypeError\<close>.
  An array is joined with commas, each element converted in turn, \<open>null\<close> elements
  giving the empty string.
\<close>

fun jsString :: "host \<Rightarrow> json \<Rightarrow> error + string" where
  "jsString h JNull = Inr ''null''"
| "jsString h (JBool b) = Inr (if b then ''true'' else ''false'')"
| "jsString h (JNum r) = Inr (numberToString h r)"
| "jsString h (JStr s) = Inr s"
| "jsString h (JArr xs) =
     bindE (sequenceE (map (\<lambda>x. if x = JNull then Inr [] else jsString h x) xs))
       (\<lambda>ss. Inr (joinComma ss))"
| "jsString h (JObj kvs) =
     (if map_of kvs ''toString'' = None then Inr ''[object Object]'' else Inl TypeError)"

text \<open>
  \<open>Number(v)\<close>: an array or an object is converted to its string first (the inherited
  \<open>valueOf\<close> returns the object itself), and fails where that fails.
\<close>

fun jsNumber :: "host \<Rightarrow> json \<Rightarrow> error + jsnum" where
  "jsNumber h JNull = Inr (Num 0)"
| "jsNumber h (JBool b) = Inr (Num (if b then 1 else 0))"
| "jsNumber h (JNum r) = Inr (Num r)"
| "jsNumber h (JStr s) = Inr (stringToNumber h s)"
| "jsNumber h v = bindE (jsString h v) (\<lambda>s. Inr (stringToNumber h s))"

text \<open>\<open>Number(v ?? d)\<close> and \<open>String(v ?? d)\<close> for a default \<open>d\<close>.\<close>

definition numberOr :: "host \<Rightarrow> json option \<Rightarrow> real \<Rightarrow> error + jsnum" where
  "numberOr h v d =
     (case v of None \<Rightarrow> Inr (Num d) | Some JNull \<Rightarrow> Inr (Num d) | Some w \<Rightarrow> jsNumber h w)"

definition stringOr :: "host \<Rightarrow> json option \<Rightarrow> string \<Rightarrow> error + string" where
  "stringOr h v d = (case v of None \<Rightarrow> Inr d | Some JNull \<Rightarrow> Inr d | Some w \<Rightarrow> jsString h w)"

text \<open>
  \<open>toUpperCase\<close> and \<open>toLowerCase\<close> on strings of ASCII characters: the 26 letters
  change case, every other character stays.
\<close>

definition lowerLetters :: string where "lowerLetters = ''abcdefghijklmnopqrstuvwxyz''"
definition upperLetters :: string where "upperLetters = ''ABCDEFGHIJKLMNOPQRSTUVWXYZ''"

definition toUpperCase :: "string \<Rightarrow> string" where
  "toUpperCase s = map (\<lambda>c. case map_of (zip lowerLetters upperLetters) c of
                              Some u \<Rightarrow> u | None \<Rightarrow> c) s"

definition toLowerCase :: "string \<Rightarrow> string" where
  "toLowerCase s = map (\<lambda>c. case map_of (zip upperLetters lowerLetters) c of
                              Some l \<Rightarrow> l | None \<Rightarrow> c) s"

text \<open>The decimal digits of a natural number: \<open>String(n)\<close> and \<open>${n}\<close> for an index.\<close>

definition digitChar :: "nat \<Rightarrow> char" where
  "digitChar d = ''0123456789'' ! d"

fun decimal :: "nat \<Rightarrow> string" where
  "decimal n = (if n < 10 then [digitChar n] else decimal (n div 10) @ [digitChar (n mod 10)])"

section \<open>Score document parser (scoreParser.ts)\<close>

record ClefInfo =
  sign :: string
  line :: jsnum
  octaveChange :: jsnum

record KeyInfo =
  fifths :: jsnum
  mode :: string

text \<open>\<open>beats\<close> and \<open>beatType\<close> are \<open>number | null\<close>; \<open>None\<close> is \<open>null\<close>.\<close>

record TimeInfo =
  beats :: "jsnum option"
  beatType :: "jsnum option"
  senzaMisura :: bool

text \<open>
  \<open>id\<close> and \<open>name\<close> of a part are copied from the document when present, so they
  are JSON values.
\<close>

record PartInfo =
  partId :: json
  name :: json
  clef :: ClefInfo
  key :: KeyInfo
  time :: TimeInfo

record ScoreLayout =
  pageWidth :: real
  pageHeight :: real

record ParseResult =
  noteList :: "jsnum NoteData list"
  layout :: ScoreLayout
  parts :: "PartInfo list"

definition parseClef :: "host \<Rightarrow> json option \<Rightarrow> error + ClefInfo" where
  "parseClef h raw =
     (case (truthy raw, raw) of
        (True, Some r) \<Rightarrow>
          bindE (stringOr h (field r ''sign'') ''G'') (\<lambda>sgn.
          bindE (numberOr h (field r ''line'') 2) (\<lambda>ln.
          bindE (numberOr h (field r ''clef-octave-change'') 0) (\<lambda>oc.
            Inr \<lparr>sign = toUpperCase sgn, line = ln, octaveChange = oc\<rparr>)))
      | _ \<Rightarrow> Inr \<lparr>sign = ''G'', line = Num 2, octaveChange = Num 0\<rparr>)"

definition parseKey :: "host \<Rightarrow> json option \<Rightarrow> error + KeyInfo" where
  "parseKey h raw =
     (case (truthy raw, raw) of
        (True, Some r) \<Rightarrow>
          bindE (numberOr h (field r ''fifths'') 0) (\<lambda>fi.
          bindE (stringOr h (field r ''mode'') ''major'') (\<lambda>mo.
            Inr \<lparr>fifths = fi, mode = mo\<rparr>))
      | _ \<Rightarrow> Inr \<lparr>fifths = Num 0, mode = ''major''\<rparr>)"

text \<open>
  \<open>k in v\<close> for the key \<open>senza-misura\<close>: an own property of an object, absent from
  an array, and a \<open>TypeError\<close> on a value that is not an object.
\<close>

fun hasKey :: "string \<Rightarrow> json \<Rightarrow> error + bool" where
  "hasKey k (JObj kvs) = Inr (map_of kvs k \<noteq> None)"
| "hasKey k (JArr xs) = Inr False"
| "hasKey k v = Inl TypeError"

text \<open>\<open>v != null ? Number(v) : null\<close>.\<close>

definition numberOrNull :: "host \<Rightarrow> json option \<Rightarrow> error + jsnum option" where
  "numberOrNull h v =
     (case v of None \<Rightarrow> Inr None | Some JNull \<Rightarrow> Inr None
      | Some w \<Rightarrow> bindE (jsNumber h w) (\<lambda>n. Inr (Some n)))"

definition parseTime :: "host \<Rightarrow> json option \<Rightarrow> error + TimeInfo" where
  "parseTime h raw =
     (case (truthy raw, raw) of
        (True, Some r) \<Rightarrow>
          bindE (hasKey ''senza-misura'' r) (\<lambda>isSenza.
          bindE (numberOrNull h (field r ''beats'')) (\<lambda>bs.
          bindE (numberOrNull h (field r ''beat-type'')) (\<lambda>bt.
            Inr \<lparr>beats = bs, beatType = bt, senzaMisura = isSenza\<rparr>)))
      | _ \<Rightarrow> Inr \<lparr>beats = Some (Num 4), beatType = Some (Num 4), senzaMisura = False\<rparr>)"

text \<open>
  \<open>normaliseNoteType\<close> reads an object literal with \<open>map[raw]\<close> and replaces only
  \<open>undefined\<close> and \<open>null\<close> by \<open>quarter\<close>. The read follows the prototype chain: under
  the name of a member of \<open>Object.prototype\<close> it finds that member, which is neither.
\<close>

definition noteTypeTable :: "(string \<times> NoteType) list" where
  "noteTypeTable =
     [(''whole'', Whole), (''half'', Half), (''quarter'', Quarter), (''eighth'', Eighth),
      (''16th'', T16th), (''32nd'', T32nd), (''64th'', T64th)]"

definition objectPrototypeKeys :: "string list" where
  "objectPrototypeKeys =
     [''constructor'', ''__defineGetter__'', ''__defineSetter__'', ''hasOwnProperty'',
      ''__lookupGetter__'', ''__lookupSetter__'', ''isPrototypeOf'', ''propertyIsEnumerable'',
      ''toString'', ''valueOf'', ''__proto__'', ''toLocaleString'']"

definition normaliseNoteType :: "string \<Rightarrow> NoteType" where
  "normaliseNoteType raw =
     (case map_of noteTypeTable raw of
        Some t \<Rightarrow> t
      | None \<Rightarrow> if raw \<in> set objectPrototypeKeys then Inherited raw else Quarter)"

text \<open>\<open>STAFF_TOPS[sysIdx][partIdx]\<close>, \<open>undefined\<close> (in a sum, \<open>NaN\<close>) outside the row.\<close>

definition staffTopOf :: "nat \<Rightarrow> nat \<Rightarrow> jsnum" where
  "staffTopOf sysIdx partIdx =
     (case nthOpt (STAFF_TOPS ! sysIdx) partIdx of None \<Rightarrow> NaN | Some y \<Rightarrow> Num y)"

definition noteIdOf :: "nat \<Rightarrow> string \<Rightarrow> nat \<Rightarrow> string" where
  "noteIdOf partIdx mNum noteIdx = ''p'' @ decimal partIdx @ ''-m'' @ mNum @ ''-n'' @ decimal noteIdx"

text \<open>
  The callback of \<open>rawNotes.forEach\<close>: the notes it pushes, none for a rest or a
  note without pitch. Its property reads are guarded; its \<open>String\<close> and \<open>Number\<close>
  conversions can fail.
\<close>

definition parseNote ::
  "host \<Rightarrow> nat \<Rightarrow> nat \<Rightarrow> string \<Rightarrow> nat \<Rightarrow> json \<Rightarrow> error + jsnum NoteData list" where
  "parseNote h partIdx measureIdx mNum noteIdx rawNote =
     (if \<not> truthy (Some rawNote) \<or> field rawNote ''rest'' \<noteq> None then Inr []
      else
        let pitch = field rawNote ''pitch''
        in if \<not> truthy pitch then Inr []
           else
             bindE (stringOr h (optField pitch ''step'') ''C'') (\<lambda>stepText.
             bindE (numberOr h (optField pitch ''octave'') 4) (\<lambda>oct.
             bindE (numberOr h (optField pitch ''alter'') 0) (\<lambda>alt.
             bindE (stringOr h (field rawNote ''type'') ''quarter'') (\<lambda>typeText.
             bindE (numberOr h (orElse (field rawNote ''_default-x'')
                                        (field rawNote ''_default_x'')) 0) (\<lambda>noteX.
             let stemObj = field rawNote ''stem''
             in bindE (stringOr h (orElse (optField stemObj ''__text'')
                                           (optField stemObj ''__text'')) '''')
                  (\<lambda>stemRaw.
             let stp = toUpperCase stepText;
                 nType = normaliseNoteType typeText;
                 stemText = toLowerCase stemRaw;
                 sDir = (if nType = Whole then StemNone
                         else if stemText = ''up'' then StemUp
                         else if stemText = ''down'' then StemDown
                         else StemNone);
                 mStartX = measureStartX measureIdx;
                 sysIdx = SYS_OF_MEASURE measureIdx;
                 staffTop = staffTopOf sysIdx partIdx;
                 yOffset = pitchToYOffset stp oct partIdx
             in Inr [\<lparr>noteId = noteIdOf partIdx mNum noteIdx,
                      step = stp,
                      octave = oct,
                      alter = alt,
                      noteType = nType,
                      absX = jadd (Num (real_of_int mStartX)) noteX,
                      absY = jadd staffTop yOffset,
                      stemDir = sDir,
                      confidence = Num (mockConfidence (int partIdx) (int measureIdx) (int noteIdx)),
                      partIndex = partIdx,
                      measureNum = mNum,
                      measureIndex = measureIdx,
                      systemIndex = sysIdx,
                      isRest = False,
                      status = Unreviewed\<rparr>])))))))"

text \<open>\<open>rawNotes.forEach\<close>, from the index \<open>noteIdx\<close> on.\<close>

fun parseNotes ::
  "host \<Rightarrow> nat \<Rightarrow> nat \<Rightarrow> string \<Rightarrow> nat \<Rightarrow> json list \<Rightarrow> error + jsnum NoteData list" where
  "parseNotes h partIdx measureIdx mNum noteIdx [] = Inr []"
| "parseNotes h partIdx measureIdx mNum noteIdx (rawNote # rest) =
     bindE (parseNote h partIdx measureIdx mNum noteIdx rawNote) (\<lambda>a.
       bindE (parseNotes h partIdx measureIdx mNum (Suc noteIdx) rest) (\<lambda>b. Inr (a @ b)))"

text \<open>\<open>String(measure._number ?? measureIdx + 1)\<close>, for a measure that is not \<open>null\<close>.\<close>

definition measureNumOf :: "host \<Rightarrow> nat \<Rightarrow> json \<Rightarrow> error + string" where
  "measureNumOf h measureIdx measure' =
     stringOr h (field measure' ''_number'') (decimal (measureIdx + 1))"

text \<open>The callback of \<open>measures.forEach\<close>; reading \<open>measure._number\<close> fails on \<open>null\<close>.\<close>

definition parseMeasure :: "host \<Rightarrow> nat \<Rightarrow> nat \<Rightarrow> json \<Rightarrow> error + jsnum NoteData list" where
  "parseMeasure h partIdx measureIdx measure' =
     bindE (getField (Some measure') ''_number'') (\<lambda>num.
       bindE (measureNumOf h measureIdx measure') (\<lambda>mNum.
         let rawNotes = toArray (field measure' ''note'')
         in parseNotes h partIdx measureIdx mNum 0 rawNotes))"

fun parseMeasures :: "host \<Rightarrow> nat \<Rightarrow> nat \<Rightarrow> json list \<Rightarrow> error + jsnum NoteData list" where
  "parseMeasures h partIdx measureIdx [] = Inr []"
| "parseMeasures h partIdx measureIdx (measure' # rest) =
     bindE (parseMeasure h partIdx measureIdx measure') (\<lambda>a.
       bindE (parseMeasures h partIdx (Suc measureIdx) rest) (\<lambda>b. Inr (a @ b)))"

text \<open>The name of a part: the ternary and the \<open>??\<close> chain of \<open>parseScore\<close>.\<close>

definition partNameOf :: "json option \<Rightarrow> nat \<Rightarrow> json" where
  "partNameOf rawSP partIdx =
     (let nameRaw = optField rawSP ''part-name''
      in case nameRaw of
           Some (JStr s) \<Rightarrow> JStr s
         | _ \<Rightarrow>
           (case orElse (optField nameRaw ''__text'')
                   (orElse (optField (optField rawSP ''score-instrument'') ''instrument-name'')
                      (Some (JStr (''Part '' @ decimal (partIdx + 1))))) of
              Some v \<Rightarrow> v
            | None \<Rightarrow> JStr (''Part '' @ decimal (partIdx + 1))))"

definition partIdOf :: "json option \<Rightarrow> nat \<Rightarrow> json" where
  "partIdOf rawSP partIdx =
     (case orElse (optField rawSP ''_id'') (Some (JStr (''P'' @ decimal (partIdx + 1)))) of
        Some v \<Rightarrow> v
      | None \<Rightarrow> JStr (''P'' @ decimal (partIdx + 1)))"

text \<open>\<open>measures[0]?.attributes ?? {}\<close>.\<close>

definition firstAttrsOf :: "json list \<Rightarrow> json" where
  "firstAttrsOf ms =
     (case orElse (optField (nthOpt ms 0) ''attributes'') (Some (JObj [])) of
        Some a \<Rightarrow> a | None \<Rightarrow> JObj [])"

text \<open>
  The callback of \<open>rawParts.forEach\<close>: the part's metadata and its notes. Reading
  \<open>part.measure\<close> fails on \<open>null\<close>.
\<close>

definition parsePart ::
  "host \<Rightarrow> json list \<Rightarrow> nat \<Rightarrow> json \<Rightarrow> error + (PartInfo \<times> jsnum NoteData list)" where
  "parsePart h rawScoreParts partIdx part =
     bindE (getField (Some part) ''measure'') (\<lambda>measureField.
       let measures = toArray measureField;
           firstAttrs = firstAttrsOf measures
       in bindE (parseClef h (field firstAttrs ''clef'')) (\<lambda>clf.
          bindE (parseKey h (field firstAttrs ''key'')) (\<lambda>ky.
          bindE (parseTime h (field firstAttrs ''time'')) (\<lambda>tm.
            let rawSP = nthOpt rawScoreParts partIdx;
                info = \<lparr>partId = partIdOf rawSP partIdx, name = partNameOf rawSP partIdx,
                        clef = clf, key = ky, time = tm\<rparr>
            in bindE (parseMeasures h partIdx 0 measures) (\<lambda>ns. Inr (info, ns))))))"

fun parseParts ::
  "host \<Rightarrow> json list \<Rightarrow> nat \<Rightarrow> json list \<Rightarrow> error + (PartInfo list \<times> jsnum NoteData list)" where
  "parseParts h rawScoreParts partIdx [] = Inr ([], [])"
| "parseParts h rawScoreParts partIdx (part # rest) =
     bindE (parsePart h rawScoreParts partIdx part) (\<lambda>a.
       bindE (parseParts h rawScoreParts (Suc partIdx) rest) (\<lambda>b.
         Inr (fst a # fst b, snd a @ snd b)))"

definition parseScore :: "host \<Rightarrow> json \<Rightarrow> error + ParseResult" where
  "parseScore h json =
     bindE (getField (Some json) ''score-partwise'') (\<lambda>partwise.
       if \<not> truthy partwise then Inl NotPartwise
       else
         let rawParts = toArray (optField partwise ''part'');
             rawScoreParts = toArray (optField (optField partwise ''part-list'') ''score-part'')
         in bindE (parseParts h rawScoreParts 0 rawParts) (\<lambda>r.
              Inr \<lparr>noteList = snd r,
                   layout = \<lparr>pageWidth = PAGE_W, pageHeight = PAGE_H\<rparr>,
                   parts = fst r\<rparr>))"

text \<open>
  The values \<open>String\<close> and \<open>Number\<close> convert without a \<open>TypeError\<close>: every
  primitive, an object without an own property \<open>toString\<close>, and an array whose
  elements are \<open>null\<close> or convertible.
\<close>

fun convertible :: "json \<Rightarrow> bool" where
  "convertible (JObj kvs) = (map_of kvs ''toString'' = None)"
| "convertible (JArr xs) = (\<forall>x\<in>set xs. x = JNull \<or> convertible x)"
| "convertible v = True"

definition convertibleOpt :: "json option \<Rightarrow> bool" where
  "convertibleOpt v = (case v of None \<Rightarrow> True | Some w \<Rightarrow> convertible w)"

text \<open>
  The shape under which no step of the parser fails: no entry of the part list and no
  entry of a measure list is \<open>null\<close>; the \<open>time\<close> block of a part's first measure,
  when it is truthy, is an object or an array; and every value the parser passes to
  \<open>String\<close> or \<open>Number\<close> is convertible. These are the fields of a truthy clef, key
  and time block of the first measure, the \<open>_number\<close> of each measure, and, for each
  note that is truthy, is no rest and has a truthy pitch, its step, octave, alter, type,
  horizontal offset and stem text.
\<close>

fun isObjectValue :: "json \<Rightarrow> bool" where
  "isObjectValue (JObj kvs) = True"
| "isObjectValue (JArr xs) = True"
| "isObjectValue v = False"

definition clefShapeOk :: "json option \<Rightarrow> bool" where
  "clefShapeOk raw =
     (case raw of
        None \<Rightarrow> True
      | Some r \<Rightarrow> \<not> truthy raw
                 \<or> (convertibleOpt (field r ''sign'') \<and> convertibleOpt (field r ''line'')
                    \<and> convertibleOpt (field r ''clef-octave-change'')))"

definition keyShapeOk :: "json option \<Rightarrow> bool" where
  "keyShapeOk raw =
     (case raw of
        None \<Rightarrow> True
      | Some r \<Rightarrow> \<not> truthy raw
                 \<or> (convertibleOpt (field r ''fifths'') \<and> convertibleOpt (field r ''mode'')))"

definition timeShapeOk :: "json option \<Rightarrow> bool" where
  "timeShapeOk raw =
     (case raw of
        None \<Rightarrow> True
      | Some r \<Rightarrow> \<not> truthy raw
                 \<or> (isObjectValue r \<and> convertibleOpt (field r ''beats'')
                    \<and> convertibleOpt (field r ''beat-type'')))"

definition noteShapeOk :: "json \<Rightarrow> bool" where
  "noteShapeOk rawNote =
     (\<not> truthy (Some rawNote) \<or> field rawNote ''rest'' \<noteq> None
      \<or> \<not> truthy (field rawNote ''pitch'')
      \<or> (convertibleOpt (optField (field rawNote ''pitch'') ''step'')
          \<and> convertibleOpt (optField (field rawNote ''pitch'') ''octave'')
          \<and> convertibleOpt (optField (field rawNote ''pitch'') ''alter'')
          \<and> convertibleOpt (field rawNote ''type'')
          \<and> convertibleOpt (orElse (field rawNote ''_default-x'') (field rawNote ''_default_x''))
          \<and> convertibleOpt (orElse (optField (field rawNote ''stem'') ''__text'')
                                    (optField (field rawNote ''stem'') ''__text''))))"

definition measureShapeOk :: "json \<Rightarrow> bool" where
  "measureShapeOk measure' =
     (measure' \<noteq> JNull \<and> convertibleOpt (field measure' ''_number'')
      \<and> list_all noteShapeOk (toArray (field measure' ''note'')))"

definition partShapeOk :: "json \<Rightarrow> bool" where
  "partShapeOk part =
     (part \<noteq> JNull
      \<and> clefShapeOk (field (firstAttrsOf (toArray (field part ''measure''))) ''clef'')
      \<and> keyShapeOk (field (firstAttrsOf (toArray (field part ''measure''))) ''key'')
      \<and> timeShapeOk (field (firstAttrsOf (toArray (field part ''measure''))) ''time'')
      \<and> list_all measureShapeOk (toArray (field part ''measure'')))"

definition documentShapeOk :: "json \<Rightarrow> bool" where
  "documentShapeOk json =
     list_all partShapeOk (toArray (optField (field json ''score-partwise'') ''part''))"

text \<open>
  The measure numbers of a part, in document order, each the result of its conversion
  to a string.
\<close>

fun measureNumsFrom :: "host \<Rightarrow> nat \<Rightarrow> json list \<Rightarrow> (error + string) list" where
  "measureNumsFrom h measureIdx [] = []"
| "measureNumsFrom h measureIdx (measure' # rest) =
     measureNumOf h measureIdx measure' # measureNumsFrom h (Suc measureIdx) rest"

definition measureNumsOfPart :: "host \<Rightarrow> json \<Rightarrow> (error + string) list" where
  "measureNumsOfPart h part = measureNumsFrom h 0 (toArray (field part ''measure''))"

definition measureNumbersDistinct :: "host \<Rightarrow> json \<Rightarrow> bool" where
  "measureNumbersDistinct h json =
     list_all (\<lambda>part. distinct (measureNumsOfPart h part))
       (toArray (optField (field json ''score-partwise'') ''part''))"

text \<open>
  A host for concrete runs: it reads unsigned decimal integers and gives \<open>NaN\<close> on
  every other string, and it prints natural numbers in decimal.
\<close>

definition digitValue :: "char \<Rightarrow> nat" where
  "digitValue c = index_of c ''0123456789''"

definition exampleStringToNumber :: "string \<Rightarrow> jsnum" where
  "exampleStringToNumber s =
     (if s \<noteq> [] \<and> list_all (\<lambda>c. c \<in> set ''0123456789'') s
      then Num (real (foldl (\<lambda>a c. 10 * a + digitValue c) 0 s))
      else NaN)"

definition exampleNumberToString :: "real \<Rightarrow> string" where
  "exampleNumberToString r = (if r = real (nat \<lfloor>r\<rfloor>) then decimal (nat \<lfloor>r\<rfloor>) else ''NaN'')"

definition exampleHost :: host where
  "exampleHost = \<lparr>stringToNumber = exampleStringToNumber, numberToString = exampleNumberToString\<rparr>"

text \<open>
  The canvas position of a head as the specification states it: the page position
  projected by the canvas/page ratio, then calibrated.
\<close>

definition noteCenter :: "real \<Rightarrow> real \<Rightarrow> CalibrationState \<Rightarrow> real NoteData \<Rightarrow> real \<times> real" where
  "noteCenter canvasW canvasH calibration note =
     (applyCalib (absX note * (canvasW / PAGE_W)) (scaleX calibration) (offsetX calibration),
      applyCalib (absY note * (canvasH / PAGE_H)) (scaleY calibration) (offsetY calibration))"

text \<open>
  The squared distance on the canvas between a query point and the centre at which a
  note's head is drawn.
\<close>

definition canvasDist2 ::
  "real \<Rightarrow> real \<Rightarrow> CalibrationState \<Rightarrow> real \<Rightarrow> real \<Rightarrow> real NoteData \<Rightarrow> real" where
  "canvasDist2 canvasW canvasH calibration px py note =
     (fst (noteCenter canvasW canvasH calibration note) - px)\<^sup>2
     + (snd (noteCenter canvasW canvasH calibration note) - py)\<^sup>2"

text \<open>
  The heights at which ledger lines are drawn for a positive interval \<open>L\<close>: above the
  staff at \<open>T - k L\<close>, below it at \<open>B + k L\<close>, for \<open>k = 1, 2, \<dots>\<close> as long as the line
  is within \<open>0.4 L\<close> of the centre \<open>cy\<close>.
\<close>

definition ledgerYs :: "real \<Rightarrow> real \<Rightarrow> real \<Rightarrow> real \<Rightarrow> real list" where
  "ledgerYs cy T B L =
     map (\<lambda>k. T - real k * L) [1..<Suc (nat \<lfloor>(T - cy) / L + 0.4\<rfloor>)]
     @ map (\<lambda>k. B + real k * L) [1..<Suc (nat \<lfloor>(cy - B) / L + 0.4\<rfloor>)]"

text \<open>The invariant of the loop of \<open>findNoteAt\<close> after the notes \<open>xs\<close>.\<close>

definition hitInv :: "(real NoteData \<Rightarrow> real) \<Rightarrow> real \<Rightarrow> real NoteData list \<Rightarrow> real NoteData option \<times> real \<Rightarrow> bool" where
  "hitInv d2 r2 xs acc =
     (case fst acc of
        None \<Rightarrow> snd acc = r2 \<and> (\<forall>n\<in>set xs. \<not> isRest n \<longrightarrow> \<not> d2 n < r2)
      | Some b \<Rightarrow> \<exists>i<length xs. xs ! i = b \<and> \<not> isRest b \<and> snd acc = d2 b \<and> d2 b < r2
                   \<and> (\<forall>j<length xs. \<not> isRest (xs ! j) \<longrightarrow> d2 b \<le> d2 (xs ! j))
                   \<and> (\<forall>j<i. \<not> isRest (xs ! j) \<longrightarrow> d2 b < d2 (xs ! j)))"

text \<open>A note record for concrete runs.\<close>

definition exampleNote :: "string \<Rightarrow> real \<Rightarrow> real \<Rightarrow> bool \<Rightarrow> real NoteData" where
  "exampleNote i x y rest =
     \<lparr>noteId = i, step = ''C'', octave = 4, alter = 0, noteType = Quarter, absX = x, absY = y,
      stemDir = StemUp, confidence = 0.9, partIndex = 0, measureNum = ''1'', measureIndex = 0,
      systemIndex = 0, isRest = rest, status = Unreviewed\<rparr>"

text \<open>A call returns when its result is not an error.\<close>

definition returns :: "error + 'a \<Rightarrow> bool" where
  "returns r = (case r of Inl e \<Rightarrow> False | Inr a \<Rightarrow> True)"

text \<open>A call fails with no error other than a \<open>TypeError\<close>.\<close>

definition onlyTypeError :: "error + 'a \<Rightarrow> bool" where
  "onlyTypeError r = (case r of Inl e \<Rightarrow> e = TypeError | Inr a \<Rightarrow> True)"

text \<open>The decimal digits, and the number a digit string denotes.\<close>

definition digits :: "char set" where "digits = set ''0123456789''"

definition undecimal :: "string \<Rightarrow> nat" where
  "undecimal s = foldl (\<lambda>a c. 10 * a + digitValue c) 0 s"

text \<open>Documents for concrete runs: a score of one part with the given measures.\<close>

definition exampleNoteJson :: json where
  "exampleNoteJson =
     JObj [(''pitch'', JObj [(''step'', JStr ''c''), (''octave'', JStr ''4'')]),
           (''type'', JStr ''half''), (''_default-x'', JStr ''20'')]"

definition exampleMeasure :: "string \<Rightarrow> json" where
  "exampleMeasure n = JObj [(''_number'', JStr n), (''note'', exampleNoteJson)]"

definition exampleScore :: "json list \<Rightarrow> json" where
  "exampleScore ms = JObj [(''score-partwise'', JObj [(''part'', JObj [(''measure'', JArr ms)])])]"

section \<open>Properties of the layout, pitch and calibration functions\<close>

lemma lt8_cases: "i < (8::nat) \<Longrightarrow> i = 0 \<or> i = 1 \<or> i = 2 \<or> i = 3 \<or> i = 4 \<or> i = 5 \<or> i = 6 \<or> i = 7"
  by arith

lemma upt_numerals:
  "[0..<1] = [0]" "[0..<2] = [0, 1]" "[0..<3] = [0, 1, 2]" "[0..<4] = [0, 1, 2, 3]"
  "[0..<5] = [0, 1, 2, 3, 4]" "[0..<6] = [0, 1, 2, 3, 4, 5]" "[0..<7] = [0, 1, 2, 3, 4, 5, 6]"
  by (simp_all add: upt_rec)

text \<open>
  C1. Inverse calibration undoes forward calibration on each axis whenever the scale is
  nonzero. Numbers are reals here, so the round trip is exact; the rounding error of
  doubles, which the claim's tolerance allows for, is outside the model.
\<close>

theorem calib_round_trip:
  assumes "scale \<noteq> 0"
  shows "inverseCalib (applyCalib raw scale offset) scale offset = raw"
  using assms by (simp add: inverseCalib_def applyCalib_def)

theorem calib_round_trip_witness:
  "(2::real) \<noteq> 0 \<and> inverseCalib (applyCalib 7 2 (-3)) 2 (-3) = 7"
  using calib_round_trip [of 2 7 "-3"] by simp

text \<open>
  C2. For a step among C, D, E, F, G, A, B and an integer octave, with
  \<open>p = octave * 7 + stepIndex step\<close>, the offset is \<open>130 - 5 p\<close> for part index 2 and
  \<open>155 - 5 p\<close> for every other part index (so for 0 and 1).
\<close>

theorem pitchToYOffset_affine:
  assumes "s \<in> set stepNames"
  shows "pitchToYOffset s (Num (of_int k)) pIdx =
           Num (of_int (if pIdx = 2
                        then 130 - 5 * (k * 7 + stepIndex s)
                        else 155 - 5 * (k * 7 + stepIndex s)))"
  using assms
  by (auto simp: stepNames_def pitchToYOffset_def stepNumber_def STEP_NUM_def stepIndex_def)

theorem pitchToYOffset_affine_witness:
  "''G'' \<in> set stepNames \<and> pitchToYOffset ''G'' (Num (of_int 3)) 0 = Num 30
   \<and> pitchToYOffset ''F'' (Num (of_int 3)) 2 = Num 10"
  using pitchToYOffset_affine [of "''G''" 3 0] pitchToYOffset_affine [of "''F''" 3 2]
  by (simp add: stepNames_def stepIndex_def)

text \<open>
  C3. For a measure index below 8, \<open>measureStartX\<close> is the left margin, 130, plus the
  widths of the preceding measures of the same system; measure 4 starts at the left
  margin, not at the left margin plus the four widths of system 0.
\<close>

theorem measureStartX_per_system:
  assumes "i < 8"
  shows "measureStartX i = specMeasureStartX i
         \<and> LEFT_MARGIN = 130
         \<and> measureStartX 4 = LEFT_MARGIN + 0
         \<and> measureStartX 4 \<noteq> LEFT_MARGIN + sum_list (take 4 MEASURE_WIDTHS)"
  using lt8_cases [OF assms]
  by (elim disjE)
     (simp_all add: measureStartX_def specMeasureStartX_def precedingInOwnSystem_def
        SYS_OF_MEASURE_def slice_def reduce_add_def MEASURE_WIDTHS_def LEFT_MARGIN_def
        upt_numerals)

theorem measureStartX_per_system_witness:
  "(5::nat) < 8 \<and> measureStartX 5 = 130 + 378 \<and> measureStartX 4 = 130"
  using measureStartX_per_system [of 5]
  by (simp add: specMeasureStartX_def precedingInOwnSystem_def SYS_OF_MEASURE_def
        MEASURE_WIDTHS_def LEFT_MARGIN_def upt_numerals)

text \<open>
  C7. The mock confidence is a function of the three integers alone: it is
  \<open>0.52 + 0.48 * r powr 0.55\<close> for the fractional part \<open>r\<close> of a fixed expression in the
  seed, \<open>r\<close> lies in \<open>[0, 1)\<close>, and the result lies in \<open>[0.52, 1]\<close>.
\<close>

theorem mockConfidence_range:
  fixes partIdx measureIdx noteIdx :: int
  defines "r \<equiv> frac (sin (real_of_int (partIdx * 1000 + measureIdx * 100 + noteIdx) * 127.1 + 311.7)
                       * 43758.5453123)"
  shows "0 \<le> r \<and> r < 1
         \<and> mockConfidence partIdx measureIdx noteIdx = 0.52 + 0.48 * (r powr 0.55)
         \<and> 0.52 \<le> mockConfidence partIdx measureIdx noteIdx
         \<and> mockConfidence partIdx measureIdx noteIdx \<le> 1"
proof -
  have r0: "0 \<le> r" and r1: "r < 1"
    by (simp_all add: r_def frac_lt_1)
  have eq: "mockConfidence partIdx measureIdx noteIdx = 0.52 + 0.48 * (r powr 0.55)"
    by (simp add: mockConfidence_def r_def frac_def Let_def)
  have p0: "0 \<le> r powr 0.55"
    by simp
  have p1: "r powr 0.55 \<le> 1"
    by (rule powr_le1) (use r0 r1 in simp_all)
  show ?thesis
    using r0 r1 eq p0 p1 by simp
qed

section \<open>Properties of the renderer and the hit test\<close>

lemma concat_map_upt_Suc_shift:
  "concat (map f [0..<Suc n]) = f 0 @ concat (map (\<lambda>k. f (Suc k)) [0..<n])"
proof -
  have "[0..<Suc n] = 0 # map Suc [0..<n]"
    by (simp add: upt_conv_Cons map_Suc_upt del: upt_Suc)
  then show ?thesis by (simp add: comp_def del: upt_Suc)
qed

lemma ledgerAbove_closed:
  assumes L: "0 < L"
  shows "nat (\<lfloor>(ly - cy) / L + 0.4\<rfloor> + 1) = n \<Longrightarrow>
         ledgerAbove cx w cy L ly = Some (concat (map (\<lambda>k. ledgerLine cx w (ly - real k * L)) [0..<n]))"
proof (induction n arbitrary: ly)
  case 0
  then have "\<lfloor>(ly - cy) / L + 0.4\<rfloor> < 0" by linarith
  then have "(ly - cy) / L + 0.4 < 0" by (simp only: floor_less_zero)
  then have "(ly - cy) / L < - 0.4" by simp
  then have "ly - cy < - 0.4 * L" using L by (simp add: pos_divide_less_eq)
  then have "\<not> ly \<ge> cy - L * 0.4" by simp
  then show ?case by (subst ledgerAbove.simps) (simp only: if_False upt_0 list.map concat.simps)
next
  case (Suc n)
  then have q: "0 \<le> \<lfloor>(ly - cy) / L + 0.4\<rfloor>" by linarith
  then have "0 \<le> (ly - cy) / L + 0.4" by (simp only: zero_le_floor)
  then have "- 0.4 \<le> (ly - cy) / L" by simp
  then have "- 0.4 * L \<le> ly - cy" using L by (simp add: pos_le_divide_eq)
  then have c: "ly \<ge> cy - L * 0.4" by simp
  have "(ly - L - cy) / L + 0.4 = ((ly - cy) / L + 0.4) - 1"
    using L by (simp add: field_simps)
  then have "\<lfloor>(ly - L - cy) / L + 0.4\<rfloor> = \<lfloor>(ly - cy) / L + 0.4\<rfloor> - 1"
    by (simp only: floor_diff_one)
  with Suc.prems have "nat (\<lfloor>(ly - L - cy) / L + 0.4\<rfloor> + 1) = n" by linarith
  from Suc.IH [OF this]
  have r: "ledgerAbove cx w cy L (ly - L)
           = Some (concat (map (\<lambda>k. ledgerLine cx w (ly - L - real k * L)) [0..<n]))" .
  have e: "\<And>k. ly - L - real k * L = ly - real (Suc k) * L"
    by (simp add: algebra_simps)
  have unfold: "ledgerAbove cx w cy L ly
                = Option.bind (ledgerAbove cx w cy L (ly - L)) (\<lambda>rest. Some (ledgerLine cx w ly @ rest))"
    by (subst ledgerAbove.simps) (simp only: c if_True)
  show ?case
    by (simp add: unfold r e concat_map_upt_Suc_shift del: upt_Suc)
qed

lemma ledgerBelow_closed:
  assumes L: "0 < L"
  shows "nat (\<lfloor>(cy - ly) / L + 0.4\<rfloor> + 1) = n \<Longrightarrow>
         ledgerBelow cx w cy L ly = Some (concat (map (\<lambda>k. ledgerLine cx w (ly + real k * L)) [0..<n]))"
proof (induction n arbitrary: ly)
  case 0
  then have "\<lfloor>(cy - ly) / L + 0.4\<rfloor> < 0" by linarith
  then have "(cy - ly) / L + 0.4 < 0" by (simp only: floor_less_zero)
  then have "(cy - ly) / L < - 0.4" by simp
  then have "cy - ly < - 0.4 * L" using L by (simp add: pos_divide_less_eq)
  then have "\<not> ly \<le> cy + L * 0.4" by simp
  then show ?case by (subst ledgerBelow.simps) (simp only: if_False upt_0 list.map concat.simps)
next
  case (Suc n)
  then have q: "0 \<le> \<lfloor>(cy - ly) / L + 0.4\<rfloor>" by linarith
  then have "0 \<le> (cy - ly) / L + 0.4" by (simp only: zero_le_floor)
  then have "- 0.4 \<le> (cy - ly) / L" by simp
  then have "- 0.4 * L \<le> cy - ly" using L by (simp add: pos_le_divide_eq)
  then have c: "ly \<le> cy + L * 0.4" by simp
  have "(cy - (ly + L)) / L + 0.4 = ((cy - ly) / L + 0.4) - 1"
    using L by (simp add: field_simps)
  then have "\<lfloor>(cy - (ly + L)) / L + 0.4\<rfloor> = \<lfloor>(cy - ly) / L + 0.4\<rfloor> - 1"
    by (simp only: floor_diff_one)
  with Suc.prems have "nat (\<lfloor>(cy - (ly + L)) / L + 0.4\<rfloor> + 1) = n" by linarith
  from Suc.IH [OF this]
  have r: "ledgerBelow cx w cy L (ly + L)
           = Some (concat (map (\<lambda>k. ledgerLine cx w (ly + L + real k * L)) [0..<n]))" .
  have e: "\<And>k. ly + L + real k * L = ly + real (Suc k) * L"
    by (simp add: algebra_simps)
  have unfold: "ledgerBelow cx w cy L ly
                = Option.bind (ledgerBelow cx w cy L (ly + L)) (\<lambda>rest. Some (ledgerLine cx w ly @ rest))"
    by (subst ledgerBelow.simps) (simp only: c if_True)
  show ?case
    by (simp add: unfold r e concat_map_upt_Suc_shift del: upt_Suc)
qed

lemma headCenters_append: "headCenters (a @ b) = headCenters a @ headCenters b"
  by (induction a rule: headCenters.induct) simp_all

lemma headRadii_append: "headRadii (a @ b) = headRadii a @ headRadii b"
  by (induction a rule: headRadii.induct) simp_all

lemma lineYs_append: "lineYs (a @ b) = lineYs a @ lineYs b"
  by (induction a rule: lineYs.induct) simp_all

lemma observe_ledgerLines:
  "headCenters (concat (map (\<lambda>k. ledgerLine cx w (f k)) ks)) = []"
  "headRadii (concat (map (\<lambda>k. ledgerLine cx w (f k)) ks)) = []"
  "lineYs (concat (map (\<lambda>k. ledgerLine cx w (f k)) ks)) = map f ks"
  by (induction ks) (simp_all add: ledgerLine_def)

lemma floor_shift: "0 < L \<Longrightarrow> \<lfloor>(a - L) / L + 0.4\<rfloor> + 1 = \<lfloor>a / L + (0.4::real)\<rfloor>"
proof -
  assume L: "0 < L"
  have "(a - L) / L + 0.4 = (a / L + 0.4) - 1"
    using L by (simp add: field_simps)
  then have "\<lfloor>(a - L) / L + 0.4\<rfloor> = \<lfloor>a / L + 0.4\<rfloor> - 1"
    by (simp only: floor_diff_one)
  then show ?thesis by simp
qed

lemma ledgerAbove_from_staff:
  assumes L: "0 < L"
  shows "(if cy < T - L * 0.4 then ledgerAbove cx w cy L (T - L) else Some [])
         = Some (concat (map (\<lambda>k. ledgerLine cx w (T - L - real k * L))
                   [0..<nat \<lfloor>(T - cy) / L + 0.4\<rfloor>]))"
proof (cases "cy < T - L * 0.4")
  case True
  have e: "T - L - cy = (T - cy) - L" by simp
  have "nat (\<lfloor>(T - L - cy) / L + 0.4\<rfloor> + 1) = nat \<lfloor>(T - cy) / L + 0.4\<rfloor>"
    by (simp only: e floor_shift [OF L])
  from ledgerAbove_closed [OF L this] True show ?thesis by simp
next
  case False
  then have "T - cy \<le> L * 0.4" by simp
  then have "(T - cy) / L \<le> 0.4" using L by (simp add: pos_divide_le_eq mult.commute)
  then have "(T - cy) / L + 0.4 < 1" by linarith
  then have "\<lfloor>(T - cy) / L + 0.4\<rfloor> < 1" by (simp only: floor_less_one)
  then have "nat \<lfloor>(T - cy) / L + 0.4\<rfloor> = 0" by simp
  with False show ?thesis by simp
qed

lemma ledgerBelow_from_staff:
  assumes L: "0 < L"
  shows "(if cy > B + L * 0.4 then ledgerBelow cx w cy L (B + L) else Some [])
         = Some (concat (map (\<lambda>k. ledgerLine cx w (B + L + real k * L))
                   [0..<nat \<lfloor>(cy - B) / L + 0.4\<rfloor>]))"
proof (cases "cy > B + L * 0.4")
  case True
  have e: "cy - (B + L) = (cy - B) - L" by simp
  have "nat (\<lfloor>(cy - (B + L)) / L + 0.4\<rfloor> + 1) = nat \<lfloor>(cy - B) / L + 0.4\<rfloor>"
    by (simp only: e floor_shift [OF L])
  from ledgerBelow_closed [OF L this] True show ?thesis by simp
next
  case False
  then have "cy - B \<le> L * 0.4" by simp
  then have "(cy - B) / L \<le> 0.4" using L by (simp add: pos_divide_le_eq mult.commute)
  then have "(cy - B) / L + 0.4 < 1" by linarith
  then have "\<lfloor>(cy - B) / L + 0.4\<rfloor> < 1" by (simp only: floor_less_one)
  then have "nat \<lfloor>(cy - B) / L + 0.4\<rfloor> = 0" by simp
  with False show ?thesis by simp
qed

lemma drawLedgerLines_closed:
  assumes L: "0 < L"
  shows "drawLedgerLines cx cy T B L rx color =
           Some ([StrokeStyle color, LineWidth (max 1 (rx * 0.2))]
                 @ concat (map (\<lambda>k. ledgerLine cx (rx * 2.4) (T - L - real k * L))
                     [0..<nat \<lfloor>(T - cy) / L + 0.4\<rfloor>])
                 @ concat (map (\<lambda>k. ledgerLine cx (rx * 2.4) (B + L + real k * L))
                     [0..<nat \<lfloor>(cy - B) / L + 0.4\<rfloor>]))"
  unfolding drawLedgerLines_def Let_def
  by (simp only: ledgerAbove_from_staff [OF L] ledgerBelow_from_staff [OF L] Option.bind.simps)

lemma map_from_one: "map f [1..<Suc n] = map (\<lambda>k. f (Suc k)) [0..<n]"
proof -
  have "[1..<Suc n] = map Suc [0..<n]"
    by (simp add: map_Suc_upt del: upt_Suc)
  then show ?thesis by (simp add: comp_def del: upt_Suc)
qed

lemma drawLedgerLines_ys:
  assumes L: "0 < L"
  shows "\<exists>t. drawLedgerLines cx cy T B L rx color = Some t \<and> lineYs t = ledgerYs cy T B L
              \<and> headCenters t = [] \<and> headRadii t = []"
proof -
  have a: "\<And>k. T - L - real k * L = T - real (Suc k) * L"
    and b: "\<And>k. B + L + real k * L = B + real (Suc k) * L"
    by (simp_all add: algebra_simps)
  show ?thesis
    unfolding drawLedgerLines_closed [OF L] ledgerYs_def map_from_one
    by (simp add: lineYs_append headCenters_append headRadii_append observe_ledgerLines a b
          del: upt_Suc)
qed







lemma openEnd_simps [simp]:
  "\<not> openEnd []"
  "openEnd (c # cs) = (if cs = [] then isMoveTo c else openEnd cs)"
  by (simp_all add: openEnd_def)

















lemma hitStep_d2:
  "hitStep sx sy rpx rpy acc note =
     (if isRest note then acc
      else if (absX note * sx - rpx)\<^sup>2 + (absY note * sy - rpy)\<^sup>2 < snd acc
           then (Some note, (absX note * sx - rpx)\<^sup>2 + (absY note * sy - rpy)\<^sup>2) else acc)"
  by (simp add: hitStep_def Let_def power2_eq_square)

lemma hitInv_step:
  assumes inv: "hitInv d2 r2 xs acc"
    and d2: "d2 x = (absX x * sx - rpx)\<^sup>2 + (absY x * sy - rpy)\<^sup>2"
  shows "hitInv d2 r2 (xs @ [x]) (hitStep sx sy rpx rpy acc x)"
proof (cases "isRest x")
  case True
  then have s: "hitStep sx sy rpx rpy acc x = acc" by (simp add: hitStep_d2)
  show ?thesis
  proof (cases "fst acc")
    case None
    with inv True show ?thesis by (auto simp: hitInv_def s)
  next
    case (Some b)
    with inv obtain i where i: "i < length xs" "xs ! i = b" "\<not> isRest b" "snd acc = d2 b" "d2 b < r2"
      "\<forall>j<length xs. \<not> isRest (xs ! j) \<longrightarrow> d2 b \<le> d2 (xs ! j)"
      "\<forall>j<i. \<not> isRest (xs ! j) \<longrightarrow> d2 b < d2 (xs ! j)"
      by (auto simp: hitInv_def)
    have "\<forall>j<length (xs @ [x]). \<not> isRest ((xs @ [x]) ! j) \<longrightarrow> d2 b \<le> d2 ((xs @ [x]) ! j)"
      using i(6) True by (auto simp: nth_append less_Suc_eq)
    moreover have "\<forall>j<i. \<not> isRest ((xs @ [x]) ! j) \<longrightarrow> d2 b < d2 ((xs @ [x]) ! j)"
      using i(1,7) by (auto simp: nth_append)
    moreover have "i < length (xs @ [x])" "(xs @ [x]) ! i = b"
      using i(1,2) by (auto simp: nth_append)
    ultimately show ?thesis
      using Some i(3,4,5) unfolding hitInv_def s by (auto intro!: exI [of _ i])
  qed
next
  case False
  show ?thesis
  proof (cases "d2 x < snd acc")
    case True
    then have s: "hitStep sx sy rpx rpy acc x = (Some x, d2 x)"
      using False d2 by (simp add: hitStep_d2)
    have bound: "snd acc \<le> r2"
      using inv by (auto simp: hitInv_def split: option.splits)
    have others: "\<forall>j<length xs. \<not> isRest (xs ! j) \<longrightarrow> snd acc \<le> d2 (xs ! j)"
    proof (intro allI impI)
      fix j assume j: "j < length xs" "\<not> isRest (xs ! j)"
      then have "xs ! j \<in> set xs" by simp
      with inv j show "snd acc \<le> d2 (xs ! j)"
        by (cases "fst acc") (auto simp: hitInv_def not_less)
    qed
    have "\<forall>j<length (xs @ [x]). \<not> isRest ((xs @ [x]) ! j) \<longrightarrow> d2 x \<le> d2 ((xs @ [x]) ! j)"
      using others True by (auto simp: nth_append less_Suc_eq)
    moreover have "\<forall>j<length xs. \<not> isRest ((xs @ [x]) ! j) \<longrightarrow> d2 x < d2 ((xs @ [x]) ! j)"
      using others True by (auto simp: nth_append)
    moreover have "d2 x < r2" using True bound by simp
    ultimately show ?thesis
      using False unfolding hitInv_def s by (auto intro!: exI [of _ "length xs"])
  next
    case nlt: False
    then have s: "hitStep sx sy rpx rpy acc x = acc"
      using False d2 by (simp add: hitStep_d2)
    show ?thesis
    proof (cases "fst acc")
      case None
      with inv nlt show ?thesis by (auto simp: hitInv_def s)
    next
      case (Some b)
      with inv obtain i where i: "i < length xs" "xs ! i = b" "\<not> isRest b" "snd acc = d2 b" "d2 b < r2"
        "\<forall>j<length xs. \<not> isRest (xs ! j) \<longrightarrow> d2 b \<le> d2 (xs ! j)"
        "\<forall>j<i. \<not> isRest (xs ! j) \<longrightarrow> d2 b < d2 (xs ! j)"
        by (auto simp: hitInv_def)
      have "\<forall>j<length (xs @ [x]). \<not> isRest ((xs @ [x]) ! j) \<longrightarrow> d2 b \<le> d2 ((xs @ [x]) ! j)"
        using i(4,6) nlt by (auto simp: nth_append less_Suc_eq)
      moreover have "\<forall>j<i. \<not> isRest ((xs @ [x]) ! j) \<longrightarrow> d2 b < d2 ((xs @ [x]) ! j)"
        using i(1,7) by (auto simp: nth_append)
      moreover have "i < length (xs @ [x])" "(xs @ [x]) ! i = b"
        using i(1,2) by (auto simp: nth_append)
      ultimately show ?thesis
        using Some i(3,4,5) unfolding hitInv_def s by (auto intro!: exI [of _ i])
    qed
  qed
qed

lemma hitInv_foldl:
  assumes "\<And>x. d2 x = (absX x * sx - rpx)\<^sup>2 + (absY x * sy - rpy)\<^sup>2"
  shows "hitInv d2 r2 xs (foldl (hitStep sx sy rpx rpy) (None, r2) xs)"
proof (induction xs rule: rev_induct)
  case Nil
  show ?case by (simp add: hitInv_def)
next
  case (snoc x xs)
  show ?case
    using hitInv_step [OF snoc.IH assms] by simp
qed

text \<open>
  C4 (amended). With nonzero scales, \<open>findNoteAt\<close> returns no note exactly when no
  non-rest note has a squared raw distance to the inverse-calibrated query point
  strictly below \<open>radius * radius\<close>; otherwise it returns a non-rest note whose squared
  distance is below \<open>radius * radius\<close> and minimal among all non-rest notes, and it is
  the first such note: every non-rest note before it is strictly farther. The radius is
  only squared, never converted: the raw distance is the canvas distance to the drawn
  head centre with each axis divided by its scale, so under a uniform scale \<open>s\<close> the hit
  region on the canvas is the open disc of radius \<open>\<bar>radius * s\<bar>\<close> around the head centre.
\<close>

theorem findNoteAt_nearest:
  assumes "scaleX c \<noteq> 0" and "scaleY c \<noteq> 0"
  shows "(case findNoteAt notes px py W H c r of
            None \<Rightarrow> \<forall>n\<in>set notes. \<not> isRest n \<longrightarrow> \<not> rawDist2 W H c px py n < r * r
          | Some b \<Rightarrow>
              \<exists>i<length notes. notes ! i = b \<and> \<not> isRest b \<and> rawDist2 W H c px py b < r * r
                \<and> (\<forall>j<length notes. \<not> isRest (notes ! j)
                       \<longrightarrow> rawDist2 W H c px py b \<le> rawDist2 W H c px py (notes ! j))
                \<and> (\<forall>j<i. \<not> isRest (notes ! j)
                       \<longrightarrow> rawDist2 W H c px py b < rawDist2 W H c px py (notes ! j)))
         \<and> (\<forall>n. rawDist2 W H c px py n
                   = ((fst (noteCenter W H c n) - px) / scaleX c)\<^sup>2
                     + ((snd (noteCenter W H c n) - py) / scaleY c)\<^sup>2)
         \<and> (scaleY c = scaleX c \<longrightarrow>
               (\<forall>n. rawDist2 W H c px py n < r * r
                      \<longleftrightarrow> canvasDist2 W H c px py n < (r * scaleX c)\<^sup>2))"
proof -
  have "hitInv (rawDist2 W H c px py) (r * r) notes
          (foldl (hitStep (W / PAGE_W) (H / PAGE_H) (inverseCalib px (scaleX c) (offsetX c))
                    (inverseCalib py (scaleY c) (offsetY c))) (None, r * r) notes)"
    by (rule hitInv_foldl) (simp add: rawDist2_def inverseCalib_def)
  then have 1: "case findNoteAt notes px py W H c r of
            None \<Rightarrow> \<forall>n\<in>set notes. \<not> isRest n \<longrightarrow> \<not> rawDist2 W H c px py n < r * r
          | Some b \<Rightarrow>
              \<exists>i<length notes. notes ! i = b \<and> \<not> isRest b \<and> rawDist2 W H c px py b < r * r
                \<and> (\<forall>j<length notes. \<not> isRest (notes ! j)
                       \<longrightarrow> rawDist2 W H c px py b \<le> rawDist2 W H c px py (notes ! j))
                \<and> (\<forall>j<i. \<not> isRest (notes ! j)
                       \<longrightarrow> rawDist2 W H c px py b < rawDist2 W H c px py (notes ! j))"
    unfolding findNoteAt_def hitInv_def Let_def
    by (cases "fst (foldl (hitStep (W / PAGE_W) (H / PAGE_H) (inverseCalib px (scaleX c) (offsetX c))
                    (inverseCalib py (scaleY c) (offsetY c))) (None, r * r) notes)") auto
  have 2: "rawDist2 W H c px py n
             = ((fst (noteCenter W H c n) - px) / scaleX c)\<^sup>2
               + ((snd (noteCenter W H c n) - py) / scaleY c)\<^sup>2" for n
  proof -
    have x: "(fst (noteCenter W H c n) - px) / scaleX c
               = absX n * (W / PAGE_W) - (px - offsetX c) / scaleX c"
      using assms(1) by (simp add: noteCenter_def applyCalib_def field_simps)
    have y: "(snd (noteCenter W H c n) - py) / scaleY c
               = absY n * (H / PAGE_H) - (py - offsetY c) / scaleY c"
      using assms(2) by (simp add: noteCenter_def applyCalib_def field_simps)
    show ?thesis by (simp only: x y rawDist2_def)
  qed
  have 3: "rawDist2 W H c px py n < r * r \<longleftrightarrow> canvasDist2 W H c px py n < (r * scaleX c)\<^sup>2"
    if s: "scaleY c = scaleX c" for n
  proof -
    have pos: "0 < (scaleX c)\<^sup>2" using assms(1) by simp
    have "rawDist2 W H c px py n = canvasDist2 W H c px py n / (scaleX c)\<^sup>2"
      unfolding 2 canvasDist2_def s by (simp add: power_divide add_divide_distrib)
    moreover have "canvasDist2 W H c px py n / (scaleX c)\<^sup>2 < r * r
                     \<longleftrightarrow> canvasDist2 W H c px py n < (r * r) * (scaleX c)\<^sup>2"
      using pos by (simp add: pos_divide_less_eq)
    moreover have "(r * r) * (scaleX c)\<^sup>2 = (r * scaleX c)\<^sup>2"
      by (simp add: power2_eq_square)
    ultimately show ?thesis by simp
  qed
  show ?thesis using 1 2 3 by blast
qed

theorem findNoteAt_nearest_witness:
  "scaleX \<lparr>offsetX = 10, offsetY = 20, scaleX = 2, scaleY = 2, noteScale = 1\<rparr> \<noteq> 0
   \<and> scaleY \<lparr>offsetX = 10, offsetY = 20, scaleX = 2, scaleY = 2, noteScale = 1\<rparr> \<noteq> 0
   \<and> findNoteAt
         [exampleNote ''a'' 100 100 True, exampleNote ''b'' 110 100 False,
          exampleNote ''c'' 90 100 False, exampleNote ''d'' 300 300 False]
         210 220 1365 1922
         \<lparr>offsetX = 10, offsetY = 20, scaleX = 2, scaleY = 2, noteScale = 1\<rparr> 18
       = Some (exampleNote ''b'' 110 100 False)
   \<and> findNoteAt [exampleNote ''d'' 300 300 False] 210 220 1365 1922
         \<lparr>offsetX = 10, offsetY = 20, scaleX = 2, scaleY = 2, noteScale = 1\<rparr> 18
       = None
   \<and> rawDist2 1365 1922 \<lparr>offsetX = 10, offsetY = 20, scaleX = 2, scaleY = 2, noteScale = 1\<rparr>
       210 220 (exampleNote ''b'' 110 100 False) = 100
   \<and> canvasDist2 1365 1922 \<lparr>offsetX = 10, offsetY = 20, scaleX = 2, scaleY = 2, noteScale = 1\<rparr>
       210 220 (exampleNote ''b'' 110 100 False) = 400"
  using findNoteAt_nearest
          [of "\<lparr>offsetX = 10, offsetY = 20, scaleX = 2, scaleY = 2, noteScale = 1\<rparr>"
              "[exampleNote ''a'' 100 100 True, exampleNote ''b'' 110 100 False,
                exampleNote ''c'' 90 100 False, exampleNote ''d'' 300 300 False]"
              210 220 1365 1922 18]
  by (simp add: findNoteAt_def hitStep_def exampleNote_def inverseCalib_def PAGE_W_def PAGE_H_def
        rawDist2_def canvasDist2_def noteCenter_def applyCalib_def)

text \<open>
  Against C4 as stated: the radius 18 is not converted to the space in which it is
  compared. With both scales 2, a click 30 canvas px from the drawn head centre
  \<open>(200, 200)\<close> selects the note; with both scales 1/2, a click 10 canvas px from the
  drawn head centre \<open>(200, 200)\<close> selects nothing.
\<close>

theorem radius_not_converted_counterexample:
  "noteCenter 1365 1922 \<lparr>offsetX = 0, offsetY = 0, scaleX = 2, scaleY = 2, noteScale = 1\<rparr>
       (exampleNote ''a'' 100 100 False) = (200, 200)
   \<and> canvasDist2 1365 1922 \<lparr>offsetX = 0, offsetY = 0, scaleX = 2, scaleY = 2, noteScale = 1\<rparr>
       230 200 (exampleNote ''a'' 100 100 False) = 30 * 30
   \<and> findNoteAt [exampleNote ''a'' 100 100 False] 230 200 1365 1922
         \<lparr>offsetX = 0, offsetY = 0, scaleX = 2, scaleY = 2, noteScale = 1\<rparr> 18
       = Some (exampleNote ''a'' 100 100 False)
   \<and> noteCenter 1365 1922 \<lparr>offsetX = 0, offsetY = 0, scaleX = 1 / 2, scaleY = 1 / 2, noteScale = 1\<rparr>
       (exampleNote ''a'' 400 400 False) = (200, 200)
   \<and> canvasDist2 1365 1922 \<lparr>offsetX = 0, offsetY = 0, scaleX = 1 / 2, scaleY = 1 / 2, noteScale = 1\<rparr>
       210 200 (exampleNote ''a'' 400 400 False) = 10 * 10
   \<and> findNoteAt [exampleNote ''a'' 400 400 False] 210 200 1365 1922
         \<lparr>offsetX = 0, offsetY = 0, scaleX = 1 / 2, scaleY = 1 / 2, noteScale = 1\<rparr> 18
       = None"
  by (simp add: findNoteAt_def hitStep_def exampleNote_def inverseCalib_def PAGE_W_def PAGE_H_def
        canvasDist2_def noteCenter_def applyCalib_def)




text \<open>
  C6 (amended). For a positive interval \<open>L\<close> (\<open>drawAllNotes\<close> always passes one, see
  \<open>lineSpacing_pos\<close>), \<open>drawLedgerLines\<close> returns and draws its lines at the heights
  \<open>ledgerYs\<close>: outside the staff only, from one interval beyond the nearer boundary
  outward while within \<open>0.4 L\<close> of the centre. A centre inside the staff gets no line; a
  centre exactly 1.5 intervals above the top gets exactly one line, at \<open>T - L\<close>; a centre
  exactly 2 intervals above the top gets exactly two.
\<close>

theorem ledger_lines:
  assumes L: "0 < L"
  shows "\<exists>t. drawLedgerLines cx cy T B L rx color = Some t
             \<and> lineYs t = ledgerYs cy T B L
             \<and> (T \<le> cy \<and> cy \<le> B \<longrightarrow> lineYs t = [])
             \<and> (T \<le> B \<and> cy = T - 1.5 * L \<longrightarrow> lineYs t = [T - L])
             \<and> (T \<le> B \<and> cy = T - 2 * L \<longrightarrow> lineYs t = [T - L, T - 2 * L])"
proof -
  from drawLedgerLines_ys [OF L] obtain t where
    t: "drawLedgerLines cx cy T B L rx color = Some t" "lineYs t = ledgerYs cy T B L"
    by blast
  have inside: "ledgerYs cy T B L = []" if "T \<le> cy" "cy \<le> B"
  proof -
    have "(T - cy) / L \<le> 0" "(cy - B) / L \<le> 0"
      using that L by (simp_all add: divide_le_0_iff)
    then have "(T - cy) / L + 0.4 < 1" "(cy - B) / L + 0.4 < 1" by linarith+
    then have "\<lfloor>(T - cy) / L + 0.4\<rfloor> < 1" "\<lfloor>(cy - B) / L + 0.4\<rfloor> < 1"
      by (simp_all only: floor_less_one)
    then show ?thesis by (simp add: ledgerYs_def)
  qed
  have below_none: "nat \<lfloor>(cy - B) / L + 0.4\<rfloor> = 0" if "cy \<le> B"
  proof -
    have "(cy - B) / L \<le> 0" using that L by (simp add: divide_le_0_iff)
    then have "(cy - B) / L + 0.4 < 1" by linarith
    then have "\<lfloor>(cy - B) / L + 0.4\<rfloor> < 1" by (simp only: floor_less_one)
    then show ?thesis by simp
  qed
  have one_half: "ledgerYs cy T B L = [T - L]" if "T \<le> B" "cy = T - 1.5 * L"
  proof -
    have "cy \<le> B" using that L by simp
    note nb = below_none [OF this]
    have "T - cy = 1.5 * L" using that by simp
    then have "(T - cy) / L = 1.5" using L by simp
    then have "\<lfloor>(T - cy) / L + 0.4\<rfloor> = \<lfloor>1.5 + (0.4::real)\<rfloor>" by (simp only:)
    also have "\<dots> = 1" by (simp add: floor_eq_iff)
    finally have "\<lfloor>(T - cy) / L + 0.4\<rfloor> = 1" .
    with nb show ?thesis by (simp add: ledgerYs_def)
  qed
  have two: "ledgerYs cy T B L = [T - L, T - 2 * L]" if "T \<le> B" "cy = T - 2 * L"
  proof -
    have "cy \<le> B" using that L by simp
    note nb = below_none [OF this]
    have "T - cy = 2 * L" using that by simp
    then have "(T - cy) / L = 2" using L by simp
    then have "\<lfloor>(T - cy) / L + 0.4\<rfloor> = \<lfloor>2 + (0.4::real)\<rfloor>" by (simp only:)
    also have "\<dots> = 2" by (simp add: floor_eq_iff)
    finally have "\<lfloor>(T - cy) / L + 0.4\<rfloor> = 2" .
    with nb show ?thesis by (simp add: ledgerYs_def upt_rec)
  qed
  show ?thesis
    using t inside one_half two by auto
qed

theorem ledger_lines_witness:
  "(0::real) < 10 \<and> (100::real) \<le> 140 \<and> (80::real) = 100 - 2 * 10
   \<and> map_option lineYs (drawLedgerLines 50 80 100 140 10 4 ''#2563eb'') = Some [90, 80]
   \<and> (100::real) \<le> 120 \<and> (120::real) \<le> 140
   \<and> map_option lineYs (drawLedgerLines 50 120 100 140 10 4 ''#2563eb'') = Some []
   \<and> (0::real) < 20 \<and> (200::real) \<le> 280 \<and> (170::real) = 200 - 1.5 * 20
   \<and> map_option lineYs (drawLedgerLines 50 170 200 280 20 4 ''#2563eb'') = Some [180]"
  using ledger_lines [of 10 50 80 100 140 4 "''#2563eb''"]
        ledger_lines [of 10 50 120 100 140 4 "''#2563eb''"]
        ledger_lines [of 20 50 170 200 280 4 "''#2563eb''"]
  by auto

text \<open>
  Against C6 as stated: with the staff top at 100 and interval 10, a centre at 85,
  exactly 1.5 intervals above the top, gets one ledger line (at 90), not two.
\<close>

theorem ledger_one_and_a_half_counterexample:
  "map_option lineYs (drawLedgerLines 50 85 100 140 10 4 ''#2563eb'') = Some [90]
   \<and> map_option (length \<circ> lineYs) (drawLedgerLines 50 85 100 140 10 4 ''#2563eb'') = Some 1"
proof -
  have inner: "ledgerAbove 50 (48 / 5) 85 10 80 = Some []"
    by (subst ledgerAbove.simps) simp
  have outer: "ledgerAbove 50 (48 / 5) 85 10 90 = Some (ledgerLine 50 (48 / 5) 90)"
    by (subst ledgerAbove.simps) (simp add: inner)
  have "drawLedgerLines 50 85 100 140 10 4 ''#2563eb''
          = Some ([StrokeStyle ''#2563eb'', LineWidth 1] @ ledgerLine 50 (48 / 5) 90)"
    by (simp add: drawLedgerLines_def outer)
  then show ?thesis
    by (simp add: ledgerLine_def)
qed

section \<open>Properties of the parser\<close>

lemma returns_simps [simp]: "returns (Inr a)" "\<not> returns (Inl e)"
  by (simp_all add: returns_def)

lemma bindE_simps [simp]: "bindE (Inr a) f = f a" "bindE (Inl e) f = Inl e"
  by (simp_all add: bindE_def)

lemma bindE_eq_Inr: "bindE m f = Inr b \<longleftrightarrow> (\<exists>a. m = Inr a \<and> f a = Inr b)"
  by (cases m) simp_all

lemma returns_bindE: "returns (bindE m f) \<longleftrightarrow> returns m \<and> (\<forall>a. m = Inr a \<longrightarrow> returns (f a))"
  by (cases m) simp_all

lemma returns_bindE_total: "(\<And>a. returns (f a)) \<Longrightarrow> returns (bindE m f) \<longleftrightarrow> returns m"
  by (cases m) simp_all

lemma returns_bindE_ex: "returns (bindE m f) \<longleftrightarrow> (\<exists>a. m = Inr a \<and> returns (f a))"
  by (cases m) simp_all

lemma ball_set_map: "(\<forall>m\<in>set (map f xs). P m) \<longleftrightarrow> (\<forall>x\<in>set xs. P (f x))"
  by simp

lemma returns_iff: "returns r \<longleftrightarrow> (\<exists>a. r = Inr a)"
  by (cases r) simp_all

lemma onlyTypeError_simps [simp]: "onlyTypeError (Inr a)" "onlyTypeError (Inl e) \<longleftrightarrow> e = TypeError"
  by (simp_all add: onlyTypeError_def)

lemma onlyTypeError_bindE: "onlyTypeError m \<Longrightarrow> (\<And>a. onlyTypeError (f a)) \<Longrightarrow> onlyTypeError (bindE m f)"
  by (cases m) simp_all

lemma onlyTypeError_D: "onlyTypeError r \<Longrightarrow> r = Inl e \<Longrightarrow> e = TypeError"
  by simp

lemma getField_Some: "getField (Some v) k = (if v = JNull then Inl TypeError else Inr (field v k))"
  by (cases v) (simp_all add: getField_def optField_def)

lemma sequenceE_returns: "returns (sequenceE ms) \<longleftrightarrow> (\<forall>m\<in>set ms. returns m)"
proof (induction ms)
  case Nil
  show ?case by simp
next
  case (Cons m ms)
  then show ?case
    by (cases m; cases "sequenceE ms") simp_all
qed

lemma sequenceE_onlyTypeError: "(\<And>m. m \<in> set ms \<Longrightarrow> onlyTypeError m) \<Longrightarrow> onlyTypeError (sequenceE ms)"
proof (induction ms)
  case Nil
  show ?case by simp
next
  case (Cons m ms)
  have "onlyTypeError m" using Cons.prems by simp
  moreover have "onlyTypeError (sequenceE ms)" using Cons by simp
  ultimately show ?case
    by (cases m; cases "sequenceE ms") simp_all
qed

lemma jsString_returns: "returns (jsString h v) \<longleftrightarrow> convertible v"
proof (induction v)
  case (JArr xs)
  have "returns (jsString h (JArr xs))
        \<longleftrightarrow> (\<forall>x\<in>set xs. returns (if x = JNull then Inr [] else jsString h x))"
    by (simp only: jsString.simps returns_bindE_total returns_simps sequenceE_returns ball_set_map)
  also have "\<dots> \<longleftrightarrow> (\<forall>x\<in>set xs. x = JNull \<or> convertible x)"
    using JArr by auto
  finally show ?case by simp
qed simp_all

lemma jsString_onlyTypeError: "onlyTypeError (jsString h v)"
proof (induction v)
  case (JArr xs)
  then show ?case
    by (auto intro!: onlyTypeError_bindE sequenceE_onlyTypeError)
qed simp_all

lemma jsNumber_returns: "returns (jsNumber h v) \<longleftrightarrow> convertible v"
  by (cases v) (simp_all add: returns_bindE_total jsString_returns del: jsString.simps)

lemma jsNumber_onlyTypeError: "onlyTypeError (jsNumber h v)"
  by (cases v) (simp_all add: onlyTypeError_bindE jsString_onlyTypeError del: jsString.simps)

lemma stringOr_returns: "returns (stringOr h v d) \<longleftrightarrow> convertibleOpt v"
  by (cases v rule: nullish.cases) (simp_all add: stringOr_def convertibleOpt_def jsString_returns del: jsString.simps)

lemma numberOr_returns: "returns (numberOr h v d) \<longleftrightarrow> convertibleOpt v"
  by (cases v rule: nullish.cases) (simp_all add: numberOr_def convertibleOpt_def jsNumber_returns del: jsNumber.simps)

lemma numberOrNull_returns: "returns (numberOrNull h v) \<longleftrightarrow> convertibleOpt v"
  by (cases v rule: nullish.cases)
     (simp_all add: numberOrNull_def convertibleOpt_def returns_bindE_total jsNumber_returns del: jsNumber.simps)

lemma stringOr_onlyTypeError: "onlyTypeError (stringOr h v d)"
  by (cases v rule: nullish.cases) (simp_all add: stringOr_def jsString_onlyTypeError del: jsString.simps)

lemma numberOr_onlyTypeError: "onlyTypeError (numberOr h v d)"
  by (cases v rule: nullish.cases) (simp_all add: numberOr_def jsNumber_onlyTypeError del: jsNumber.simps)

lemma numberOrNull_onlyTypeError: "onlyTypeError (numberOrNull h v)"
  by (cases v rule: nullish.cases)
     (simp_all add: numberOrNull_def onlyTypeError_bindE jsNumber_onlyTypeError del: jsNumber.simps)

lemmas conv_returns =
  stringOr_returns [unfolded returns_iff] numberOr_returns [unfolded returns_iff]
  numberOrNull_returns [unfolded returns_iff]
lemmas conv_onlyTypeError = stringOr_onlyTypeError numberOr_onlyTypeError numberOrNull_onlyTypeError

lemma parseClef_returns: "returns (parseClef h raw) \<longleftrightarrow> clefShapeOk raw"
  by (cases raw; cases "truthy raw")
     (auto simp: parseClef_def clefShapeOk_def returns_bindE_ex conv_returns)

lemma parseKey_returns: "returns (parseKey h raw) \<longleftrightarrow> keyShapeOk raw"
  by (cases raw; cases "truthy raw")
     (auto simp: parseKey_def keyShapeOk_def returns_bindE_ex conv_returns)

lemma hasKey_returns: "(\<exists>b. hasKey k r = Inr b) \<longleftrightarrow> isObjectValue r"
  by (cases r) auto

lemma hasKey_onlyTypeError: "onlyTypeError (hasKey k r)"
  by (cases r) simp_all

lemma parseTime_returns: "returns (parseTime h raw) \<longleftrightarrow> timeShapeOk raw"
  by (cases raw; cases "truthy raw")
     (auto simp: parseTime_def timeShapeOk_def returns_bindE_ex conv_returns hasKey_returns)

lemma parseClef_onlyTypeError: "onlyTypeError (parseClef h raw)"
  by (cases raw; cases "truthy raw")
     (auto simp: parseClef_def intro!: onlyTypeError_bindE conv_onlyTypeError)

lemma parseKey_onlyTypeError: "onlyTypeError (parseKey h raw)"
  by (cases raw; cases "truthy raw")
     (auto simp: parseKey_def intro!: onlyTypeError_bindE conv_onlyTypeError)

lemma parseTime_onlyTypeError: "onlyTypeError (parseTime h raw)"
  by (cases raw; cases "truthy raw")
     (auto simp: parseTime_def intro!: onlyTypeError_bindE conv_onlyTypeError hasKey_onlyTypeError)

lemma onlyTypeError_bindE_iff:
  "onlyTypeError (bindE m f) \<longleftrightarrow> onlyTypeError m \<and> (\<forall>a. m = Inr a \<longrightarrow> onlyTypeError (f a))"
  by (cases m) simp_all

lemma parseNote_returns: "returns (parseNote h p m M i rn) \<longleftrightarrow> noteShapeOk rn"
proof (cases "\<not> truthy (Some rn) \<or> field rn ''rest'' \<noteq> None \<or> \<not> truthy (field rn ''pitch'')")
  case True
  then have "parseNote h p m M i rn = Inr []" "noteShapeOk rn"
    by (auto simp: parseNote_def noteShapeOk_def Let_def)
  then show ?thesis by simp
next
  case False
  then show ?thesis
    by (simp add: parseNote_def noteShapeOk_def Let_def returns_bindE_ex conv_returns)
qed

lemma parseNote_onlyTypeError: "onlyTypeError (parseNote h p m M i rn)"
  by (simp add: parseNote_def Let_def onlyTypeError_bindE_iff conv_onlyTypeError)

lemma parseNotes_returns: "returns (parseNotes h p m M i rns) \<longleftrightarrow> list_all noteShapeOk rns"
proof (induction rns arbitrary: i)
  case Nil
  show ?case by simp
next
  case (Cons rn rns)
  have "returns (parseNotes h p m M i (rn # rns))
        \<longleftrightarrow> returns (parseNote h p m M i rn) \<and> returns (parseNotes h p m M (Suc i) rns)"
    by (cases "parseNote h p m M i rn"; cases "parseNotes h p m M (Suc i) rns") simp_all
  then show ?case
    using Cons.IH [of "Suc i"] by (simp add: parseNote_returns)
qed

lemma parseNotes_onlyTypeError: "onlyTypeError (parseNotes h p m M i rns)"
  by (induction rns arbitrary: i) (auto intro!: onlyTypeError_bindE parseNote_onlyTypeError)

lemma parseMeasure_unfold:
  "parseMeasure h p i m =
     (if m = JNull then Inl TypeError
      else bindE (measureNumOf h i m) (\<lambda>mNum. parseNotes h p i mNum 0 (toArray (field m ''note''))))"
  by (simp add: parseMeasure_def getField_Some Let_def)

lemma measureNumOf_returns: "returns (measureNumOf h i m) \<longleftrightarrow> convertibleOpt (field m ''_number'')"
  by (simp add: measureNumOf_def stringOr_returns)

lemma parseMeasure_returns: "returns (parseMeasure h p i m) \<longleftrightarrow> measureShapeOk m"
proof (cases "measureNumOf h i m")
  case (Inl e)
  then have "\<not> convertibleOpt (field m ''_number'')"
    using measureNumOf_returns [of h i m] by simp
  with Inl show ?thesis by (simp add: parseMeasure_unfold measureShapeOk_def)
next
  case (Inr M)
  then have "convertibleOpt (field m ''_number'')"
    using measureNumOf_returns [of h i m] by simp
  with Inr show ?thesis by (simp add: parseMeasure_unfold measureShapeOk_def parseNotes_returns)
qed

lemma parseMeasure_onlyTypeError: "onlyTypeError (parseMeasure h p i m)"
  by (simp add: parseMeasure_unfold measureNumOf_def onlyTypeError_bindE_iff conv_onlyTypeError
        parseNotes_onlyTypeError)

lemma parseMeasures_returns: "returns (parseMeasures h p i ms) \<longleftrightarrow> list_all measureShapeOk ms"
proof (induction ms arbitrary: i)
  case Nil
  show ?case by simp
next
  case (Cons m ms)
  have "returns (parseMeasures h p i (m # ms))
        \<longleftrightarrow> returns (parseMeasure h p i m) \<and> returns (parseMeasures h p (Suc i) ms)"
    by (cases "parseMeasure h p i m"; cases "parseMeasures h p (Suc i) ms") simp_all
  then show ?case
    using Cons.IH [of "Suc i"] by (simp add: parseMeasure_returns)
qed

lemma parseMeasures_onlyTypeError: "onlyTypeError (parseMeasures h p i ms)"
  by (induction ms arbitrary: i) (simp_all add: onlyTypeError_bindE_iff parseMeasure_onlyTypeError)

lemma parsePart_unfold:
  "parsePart h sps i part =
     (if part = JNull then Inl TypeError
      else
        bindE (parseClef h (field (firstAttrsOf (toArray (field part ''measure''))) ''clef'')) (\<lambda>clf.
        bindE (parseKey h (field (firstAttrsOf (toArray (field part ''measure''))) ''key'')) (\<lambda>ky.
        bindE (parseTime h (field (firstAttrsOf (toArray (field part ''measure''))) ''time'')) (\<lambda>tm.
        bindE (parseMeasures h i 0 (toArray (field part ''measure''))) (\<lambda>ns.
          Inr (\<lparr>partId = partIdOf (nthOpt sps i) i, name = partNameOf (nthOpt sps i) i,
                 clef = clf, key = ky, time = tm\<rparr>, ns))))))"
  by (simp add: parsePart_def getField_Some Let_def)

lemma parsePart_returns: "returns (parsePart h sps i part) \<longleftrightarrow> partShapeOk part"
proof -
  let ?attrs = "firstAttrsOf (toArray (field part ''measure''))"
  have "returns (parsePart h sps i part)
        \<longleftrightarrow> part \<noteq> JNull \<and> returns (parseClef h (field ?attrs ''clef''))
            \<and> returns (parseKey h (field ?attrs ''key''))
            \<and> returns (parseTime h (field ?attrs ''time''))
            \<and> returns (parseMeasures h i 0 (toArray (field part ''measure'')))"
    by (cases "parseClef h (field ?attrs ''clef'')"; cases "parseKey h (field ?attrs ''key'')";
        cases "parseTime h (field ?attrs ''time'')";
        cases "parseMeasures h i 0 (toArray (field part ''measure''))")
       (simp_all add: parsePart_unfold)
  then show ?thesis
    by (simp add: partShapeOk_def parseClef_returns parseKey_returns parseTime_returns
          parseMeasures_returns)
qed

lemma parsePart_onlyTypeError: "onlyTypeError (parsePart h sps i part)"
  by (simp add: parsePart_unfold onlyTypeError_bindE_iff parseClef_onlyTypeError
        parseKey_onlyTypeError parseTime_onlyTypeError parseMeasures_onlyTypeError)

lemma parseParts_returns: "returns (parseParts h sps i ps) \<longleftrightarrow> list_all partShapeOk ps"
proof (induction ps arbitrary: i)
  case Nil
  show ?case by simp
next
  case (Cons p ps)
  have "returns (parseParts h sps i (p # ps))
        \<longleftrightarrow> returns (parsePart h sps i p) \<and> returns (parseParts h sps (Suc i) ps)"
    by (cases "parsePart h sps i p"; cases "parseParts h sps (Suc i) ps") simp_all
  then show ?case
    using Cons.IH [of "Suc i"] by (simp add: parsePart_returns)
qed

lemma parseParts_onlyTypeError: "onlyTypeError (parseParts h sps i ps)"
  by (induction ps arbitrary: i) (simp_all add: onlyTypeError_bindE_iff parsePart_onlyTypeError)

lemma parseScore_cases:
  "parseScore h json =
     (if json = JNull then Inl TypeError
      else if \<not> truthy (field json ''score-partwise'') then Inl NotPartwise
      else bindE (parseParts h
                    (toArray (optField (optField (field json ''score-partwise'') ''part-list'') ''score-part''))
                    0 (toArray (optField (field json ''score-partwise'') ''part'')))
             (\<lambda>r. Inr \<lparr>noteList = snd r,
                        layout = \<lparr>pageWidth = PAGE_W, pageHeight = PAGE_H\<rparr>,
                        parts = fst r\<rparr>))"
  by (simp add: parseScore_def getField_Some Let_def)

lemma parseScore_returns:
  "returns (parseScore h json)
   \<longleftrightarrow> json \<noteq> JNull \<and> truthy (field json ''score-partwise'') \<and> documentShapeOk json"
  by (simp add: parseScore_cases returns_bindE_total documentShapeOk_def parseParts_returns)

lemma parseScore_NotPartwise:
  "json \<noteq> JNull \<Longrightarrow>
     parseScore h json = Inl NotPartwise \<longleftrightarrow> \<not> truthy (field json ''score-partwise'')"
  using parseParts_onlyTypeError
          [of h "toArray (optField (optField (field json ''score-partwise'') ''part-list'') ''score-part'')"
              0 "toArray (optField (field json ''score-partwise'') ''part'')"]
  by (auto simp: parseScore_cases bindE_def split: sum.splits)

lemma parseScore_TypeError:
  "json \<noteq> JNull \<Longrightarrow> truthy (field json ''score-partwise'') \<Longrightarrow> \<not> documentShapeOk json
   \<Longrightarrow> parseScore h json = Inl TypeError"
proof -
  assume a: "json \<noteq> JNull" "truthy (field json ''score-partwise'')" "\<not> documentShapeOk json"
  then have "\<not> returns (parseScore h json)" by (simp add: parseScore_returns)
  then obtain e where e: "parseScore h json = Inl e" by (cases "parseScore h json") simp_all
  with a have "e \<noteq> NotPartwise" using parseScore_NotPartwise [of json h] by auto
  then show ?thesis using e by (cases e) simp_all
qed

lemma digitChar_in: "d < 10 \<Longrightarrow> digitChar d \<in> digits"
proof -
  assume "d < 10"
  then have "d = 0 \<or> d = 1 \<or> d = 2 \<or> d = 3 \<or> d = 4 \<or> d = 5 \<or> d = 6 \<or> d = 7 \<or> d = 8 \<or> d = 9"
    by arith
  then show ?thesis
    by (elim disjE) (simp_all add: digitChar_def digits_def)
qed

lemma digitValue_digitChar: "d < 10 \<Longrightarrow> digitValue (digitChar d) = d"
proof -
  assume "d < 10"
  then have "d = 0 \<or> d = 1 \<or> d = 2 \<or> d = 3 \<or> d = 4 \<or> d = 5 \<or> d = 6 \<or> d = 7 \<or> d = 8 \<or> d = 9"
    by arith
  then show ?thesis
    by (elim disjE) (simp_all add: digitChar_def digitValue_def)
qed

declare decimal.simps [simp del]

lemma decimal_digits: "set (decimal n) \<subseteq> digits"
proof (induction n rule: decimal.induct)
  case (1 n)
  show ?case
  proof (cases "n < 10")
    case True
    then show ?thesis by (subst decimal.simps) (simp add: digitChar_in)
  next
    case False
    with 1 show ?thesis by (subst decimal.simps) (simp add: digitChar_in)
  qed
qed

lemma undecimal_decimal: "undecimal (decimal n) = n"
proof (induction n rule: decimal.induct)
  case (1 n)
  show ?case
  proof (cases "n < 10")
    case True
    then show ?thesis
      by (subst decimal.simps) (simp add: undecimal_def digitValue_digitChar)
  next
    case False
    with 1 have "undecimal (decimal (n div 10)) = n div 10" by simp
    then show ?thesis
      using False by (subst decimal.simps) (simp add: undecimal_def digitValue_digitChar)
  qed
qed

lemma decimal_inj: "decimal a = decimal b \<Longrightarrow> a = b"
  by (metis undecimal_decimal)

lemma split_at_mark:
  assumes "xs @ c # ys = xs' @ c # ys'" "c \<notin> set xs" "c \<notin> set xs'"
  shows "xs = xs' \<and> ys = ys'"
  using assms
proof (induction xs arbitrary: xs')
  case Nil
  then show ?case by (cases xs') auto
next
  case (Cons x xs)
  then show ?case by (cases xs') auto
qed

lemma dash_not_digit: "CHR ''-'' \<notin> digits" and n_not_digit: "CHR ''n'' \<notin> digits"
  by (simp_all add: digits_def)

lemma noteIdOf_inj:
  assumes "noteIdOf p M n = noteIdOf p' M' n'"
  shows "p = p' \<and> M = M' \<and> n = n'"
proof -
  from assms have "decimal p @ CHR ''-'' # (''m'' @ M @ ''-n'' @ decimal n)
                   = decimal p' @ CHR ''-'' # (''m'' @ M' @ ''-n'' @ decimal n')"
    by (simp add: noteIdOf_def)
  from split_at_mark [OF this] decimal_digits dash_not_digit
  have p: "decimal p = decimal p'" and r: "M @ ''-n'' @ decimal n = M' @ ''-n'' @ decimal n'"
    by auto
  from r have "rev (M @ ''-n'' @ decimal n) = rev (M' @ ''-n'' @ decimal n')" by simp
  then have "rev (decimal n) @ CHR ''n'' # (CHR ''-'' # rev M)
             = rev (decimal n') @ CHR ''n'' # (CHR ''-'' # rev M')"
    by simp
  from split_at_mark [OF this] decimal_digits n_not_digit
  have "rev (decimal n) = rev (decimal n')" "rev M = rev M'"
    by auto
  then show ?thesis
    using p by (auto dest: decimal_inj)
qed

lemma parseNote_cases:
  "parseNote h p m M i rn = Inr xs \<Longrightarrow>
     xs = [] \<or> (\<exists>x. xs = [x] \<and> noteId x = noteIdOf p M i)"
  by (auto simp: parseNote_def Let_def bindE_eq_Inr split: if_splits)

lemma parseNote_ids:
  "parseNote h p m M i rn = Inr xs \<Longrightarrow> x \<in> set xs \<Longrightarrow> noteId x = noteIdOf p M i"
  using parseNote_cases by fastforce

lemma distinct_parseNote: "parseNote h p m M i rn = Inr xs \<Longrightarrow> distinct (map noteId xs)"
  using parseNote_cases by fastforce

lemma parseNotes_Cons:
  "parseNotes h p m M i (rn # rns) = Inr xs \<longleftrightarrow>
     (\<exists>a b. parseNote h p m M i rn = Inr a \<and> parseNotes h p m M (Suc i) rns = Inr b \<and> xs = a @ b)"
  by (auto simp: bindE_eq_Inr)

lemma parseNotes_ids:
  "parseNotes h p m M i rns = Inr xs \<Longrightarrow> x \<in> set xs \<Longrightarrow> \<exists>k\<ge>i. noteId x = noteIdOf p M k"
proof (induction rns arbitrary: i xs)
  case Nil
  then show ?case by auto
next
  case (Cons rn rns)
  from Cons.prems(1) obtain a b where ab: "parseNote h p m M i rn = Inr a"
    "parseNotes h p m M (Suc i) rns = Inr b" "xs = a @ b"
    unfolding parseNotes_Cons by blast
  with Cons.prems(2) consider "x \<in> set a" | "x \<in> set b" by auto
  then show ?case
  proof cases
    case 1
    from parseNote_ids [OF ab(1) this] show ?thesis by blast
  next
    case 2
    from Cons.IH [OF ab(2) this] show ?thesis by (meson Suc_leD)
  qed
qed

lemma distinct_parseNotes:
  "parseNotes h p m M i rns = Inr xs \<Longrightarrow> distinct (map noteId xs)"
proof (induction rns arbitrary: i xs)
  case Nil
  then show ?case by auto
next
  case (Cons rn rns)
  from Cons.prems(1) obtain a b where ab: "parseNote h p m M i rn = Inr a"
    "parseNotes h p m M (Suc i) rns = Inr b" "xs = a @ b"
    unfolding parseNotes_Cons by blast
  have "noteId x \<noteq> noteId y" if "x \<in> set a" "y \<in> set b" for x y
  proof -
    from parseNote_ids [OF ab(1) that(1)] have "noteId x = noteIdOf p M i" .
    moreover from parseNotes_ids [OF ab(2) that(2)] obtain k where "k \<ge> Suc i" "noteId y = noteIdOf p M k"
      by blast
    ultimately show ?thesis using noteIdOf_inj by fastforce
  qed
  then show ?case
    using Cons.IH [OF ab(2)] distinct_parseNote [OF ab(1)] ab(3) by auto
qed

lemma parseMeasure_Inr:
  "parseMeasure h p i m = Inr ns \<Longrightarrow>
     \<exists>M. measureNumOf h i m = Inr M \<and> parseNotes h p i M 0 (toArray (field m ''note'')) = Inr ns"
  by (auto simp: parseMeasure_unfold bindE_eq_Inr split: if_splits)

lemma parseMeasure_ids:
  "parseMeasure h p i m = Inr ns \<Longrightarrow> x \<in> set ns
   \<Longrightarrow> \<exists>M k. measureNumOf h i m = Inr M \<and> noteId x = noteIdOf p M k"
  using parseMeasure_Inr parseNotes_ids by blast

lemma distinct_parseMeasure:
  "parseMeasure h p i m = Inr ns \<Longrightarrow> distinct (map noteId ns)"
  using parseMeasure_Inr distinct_parseNotes by blast

lemma parseMeasures_Cons:
  "parseMeasures h p i (m # ms) = Inr ns \<longleftrightarrow>
     (\<exists>a b. parseMeasure h p i m = Inr a \<and> parseMeasures h p (Suc i) ms = Inr b \<and> ns = a @ b)"
  by (auto simp: bindE_eq_Inr)

lemma parseMeasures_ids:
  "parseMeasures h p i ms = Inr ns \<Longrightarrow> x \<in> set ns
   \<Longrightarrow> \<exists>M k. Inr M \<in> set (measureNumsFrom h i ms) \<and> noteId x = noteIdOf p M k"
proof (induction ms arbitrary: i ns)
  case Nil
  then show ?case by auto
next
  case (Cons m ms)
  from Cons.prems(1) obtain a b where ab: "parseMeasure h p i m = Inr a"
    "parseMeasures h p (Suc i) ms = Inr b" "ns = a @ b"
    unfolding parseMeasures_Cons by blast
  with Cons.prems(2) consider "x \<in> set a" | "x \<in> set b" by auto
  then show ?case
  proof cases
    case 1
    from parseMeasure_ids [OF ab(1) this] show ?thesis by auto
  next
    case 2
    from Cons.IH [OF ab(2) this] show ?thesis by auto
  qed
qed

lemma distinct_parseMeasures:
  "parseMeasures h p i ms = Inr ns \<Longrightarrow> distinct (measureNumsFrom h i ms)
   \<Longrightarrow> distinct (map noteId ns)"
proof (induction ms arbitrary: i ns)
  case Nil
  then show ?case by auto
next
  case (Cons m ms)
  from Cons.prems(1) obtain a b where ab: "parseMeasure h p i m = Inr a"
    "parseMeasures h p (Suc i) ms = Inr b" "ns = a @ b"
    unfolding parseMeasures_Cons by blast
  from Cons.prems(2) have fresh: "measureNumOf h i m \<notin> set (measureNumsFrom h (Suc i) ms)"
    and rest: "distinct (measureNumsFrom h (Suc i) ms)"
    by simp_all
  have "noteId x \<noteq> noteId y" if "x \<in> set a" "y \<in> set b" for x y
  proof -
    from parseMeasure_ids [OF ab(1) that(1)] obtain M k where
      x: "measureNumOf h i m = Inr M" "noteId x = noteIdOf p M k"
      by blast
    from parseMeasures_ids [OF ab(2) that(2)] obtain M' k' where
      y: "Inr M' \<in> set (measureNumsFrom h (Suc i) ms)" "noteId y = noteIdOf p M' k'"
      by blast
    have "M \<noteq> M'" using x(1) y(1) fresh by auto
    then show ?thesis using x(2) y(2) noteIdOf_inj by fastforce
  qed
  then show ?case
    using Cons.IH [OF ab(2) rest] distinct_parseMeasure [OF ab(1)] ab(3) by auto
qed

lemma parsePart_Inr:
  "parsePart h sps i part = Inr r \<Longrightarrow>
     parseMeasures h i 0 (toArray (field part ''measure'')) = Inr (snd r)"
  by (auto simp: parsePart_unfold bindE_eq_Inr split: if_splits)

lemma parsePart_ids:
  "parsePart h sps i part = Inr r \<Longrightarrow> x \<in> set (snd r) \<Longrightarrow> \<exists>M k. noteId x = noteIdOf i M k"
  using parsePart_Inr parseMeasures_ids by blast

lemma distinct_parsePart:
  "parsePart h sps i part = Inr r \<Longrightarrow> distinct (measureNumsOfPart h part)
   \<Longrightarrow> distinct (map noteId (snd r))"
  using parsePart_Inr distinct_parseMeasures unfolding measureNumsOfPart_def by blast

lemma parseParts_Cons:
  "parseParts h sps i (p # ps) = Inr r \<longleftrightarrow>
     (\<exists>a b. parsePart h sps i p = Inr a \<and> parseParts h sps (Suc i) ps = Inr b
            \<and> r = (fst a # fst b, snd a @ snd b))"
  by (auto simp: bindE_eq_Inr)

lemma parseParts_ids:
  "parseParts h sps i ps = Inr r \<Longrightarrow> x \<in> set (snd r) \<Longrightarrow> \<exists>j\<ge>i. \<exists>M k. noteId x = noteIdOf j M k"
proof (induction ps arbitrary: i r)
  case Nil
  then show ?case by auto
next
  case (Cons p ps)
  from Cons.prems(1) obtain a b where ab: "parsePart h sps i p = Inr a"
    "parseParts h sps (Suc i) ps = Inr b" "r = (fst a # fst b, snd a @ snd b)"
    unfolding parseParts_Cons by blast
  with Cons.prems(2) consider "x \<in> set (snd a)" | "x \<in> set (snd b)" by auto
  then show ?case
  proof cases
    case 1
    from parsePart_ids [OF ab(1) this] show ?thesis by blast
  next
    case 2
    from Cons.IH [OF ab(2) this] show ?thesis by (meson Suc_leD)
  qed
qed

lemma distinct_parseParts:
  "parseParts h sps i ps = Inr r \<Longrightarrow> list_all (\<lambda>part. distinct (measureNumsOfPart h part)) ps
   \<Longrightarrow> distinct (map noteId (snd r))"
proof (induction ps arbitrary: i r)
  case Nil
  then show ?case by auto
next
  case (Cons p ps)
  from Cons.prems(1) obtain a b where ab: "parsePart h sps i p = Inr a"
    "parseParts h sps (Suc i) ps = Inr b" "r = (fst a # fst b, snd a @ snd b)"
    unfolding parseParts_Cons by blast
  from Cons.prems(2) have hd: "distinct (measureNumsOfPart h p)"
    and tl: "list_all (\<lambda>part. distinct (measureNumsOfPart h part)) ps"
    by simp_all
  have "noteId x \<noteq> noteId y" if "x \<in> set (snd a)" "y \<in> set (snd b)" for x y
  proof -
    from parsePart_ids [OF ab(1) that(1)] obtain M k where x: "noteId x = noteIdOf i M k"
      by blast
    from parseParts_ids [OF ab(2) that(2)] obtain j M' k' where
      y: "j \<ge> Suc i" "noteId y = noteIdOf j M' k'"
      by blast
    show ?thesis using x y noteIdOf_inj by fastforce
  qed
  then show ?case
    using Cons.IH [OF ab(2) tl] distinct_parsePart [OF ab(1) hd] ab(3) by auto
qed

lemmas parser_defs =
  parseScore_def parsePart_def parseMeasure_def parseNote_def parseTime_def parseClef_def
  parseKey_def getField_def optField_def orElse_def toArray_def nthOpt_def firstAttrsOf_def
  measureNumOf_def noteIdOf_def stringOr_def numberOr_def numberOrNull_def partIdOf_def
  partNameOf_def bindE_def Let_def

lemma decimal_small: "n < 10 \<Longrightarrow> decimal n = [digitChar n]"
  by (subst decimal.simps) simp

lemma parseNotes_append:
  "parseNotes h p m M i (xs @ ys) =
     bindE (parseNotes h p m M i xs) (\<lambda>a.
       bindE (parseNotes h p m M (i + length xs) ys) (\<lambda>b. Inr (a @ b)))"
proof (induction xs arbitrary: i)
  case Nil
  show ?case by (cases "parseNotes h p m M i ys") simp_all
next
  case (Cons x xs)
  show ?case
    by (cases "parseNote h p m M i x"; cases "parseNotes h p m M (Suc i) xs";
        cases "parseNotes h p m M (Suc (i + length xs)) ys")
       (simp_all add: Cons.IH)
qed

lemma parseNote_noteType:
  "parseNote h p m M i rn = Inr ns \<Longrightarrow> x \<in> set ns \<Longrightarrow>
     \<exists>t. stringOr h (field rn ''type'') ''quarter'' = Inr t \<and> noteType x = normaliseNoteType t"
  by (auto simp: parseNote_def Let_def bindE_eq_Inr split: if_splits)

lemma normaliseNoteType_fallback:
  "raw \<notin> fst ` set noteTypeTable \<Longrightarrow> raw \<notin> set objectPrototypeKeys \<Longrightarrow> normaliseNoteType raw = Quarter"
  by (simp add: normaliseNoteType_def map_of_eq_None_iff split: option.splits)
     (metis map_of_eq_None_iff option.distinct(1))

lemma parseNote_no_pitch: "\<not> truthy (field rn ''pitch'') \<Longrightarrow> parseNote h p m M i rn = Inr []"
  by (simp add: parseNote_def Let_def)

text \<open>
  C8 (amended). \<open>parseScore\<close> throws its own error exactly when the
  \<open>score-partwise\<close> wrapper is missing or falsy, and on a document of the shape
  \<open>documentShapeOk\<close> it throws exactly then; a failure is an \<open>Inl\<close> and carries no
  note list. A note is parsed without error exactly when it has the shape
  \<open>noteShapeOk\<close>, and then a missing duration type, and an unrecognised one that is
  not the name of a member of \<open>Object.prototype\<close>, becomes \<open>quarter\<close>. A note
  without pitch is dropped without error, and the notes around it are parsed as before,
  with their own indices.
\<close>

theorem parseScore_failure_and_fallbacks:
  "(json \<noteq> JNull \<longrightarrow>
      (parseScore h json = Inl NotPartwise \<longleftrightarrow> \<not> truthy (field json ''score-partwise'')))
   \<and> (json \<noteq> JNull \<and> documentShapeOk json \<longrightarrow>
        ((\<exists>e. parseScore h json = Inl e) \<longleftrightarrow> \<not> truthy (field json ''score-partwise'')))
   \<and> ((\<exists>ns. parseNote h p m M i rn = Inr ns) \<longleftrightarrow> noteShapeOk rn)
   \<and> (nullish (field rn ''type'')
        \<or> (field rn ''type'' = Some (JStr raw) \<and> raw \<notin> fst ` set noteTypeTable
            \<and> raw \<notin> set objectPrototypeKeys)
      \<longrightarrow> (\<forall>ns. parseNote h p m M i rn = Inr ns \<longrightarrow> (\<forall>x\<in>set ns. noteType x = Quarter)))
   \<and> (\<not> truthy (field rn ''pitch'') \<longrightarrow>
        parseNote h p m M i rn = Inr []
        \<and> parseNotes h p m M i (xs @ rn # ys)
            = bindE (parseNotes h p m M i xs) (\<lambda>a.
                bindE (parseNotes h p m M (Suc (i + length xs)) ys) (\<lambda>b. Inr (a @ b))))"
proof -
  have a: "json \<noteq> JNull \<longrightarrow>
      (parseScore h json = Inl NotPartwise \<longleftrightarrow> \<not> truthy (field json ''score-partwise''))"
    by (simp add: parseScore_NotPartwise)
  have b: "(\<exists>e. parseScore h json = Inl e) \<longleftrightarrow> \<not> truthy (field json ''score-partwise'')"
    if "json \<noteq> JNull" "documentShapeOk json"
  proof -
    have "returns (parseScore h json) \<longleftrightarrow> truthy (field json ''score-partwise'')"
      using that by (simp add: parseScore_returns)
    then show ?thesis by (cases "parseScore h json") simp_all
  qed
  have r: "(\<exists>ns. parseNote h p m M i rn = Inr ns) \<longleftrightarrow> noteShapeOk rn"
    using parseNote_returns [of h p m M i rn] by (simp add: returns_iff)
  have c: "\<forall>x\<in>set ns. noteType x = Quarter"
    if t: "nullish (field rn ''type'')
        \<or> (field rn ''type'' = Some (JStr raw) \<and> raw \<notin> fst ` set noteTypeTable
            \<and> raw \<notin> set objectPrototypeKeys)"
      and ns: "parseNote h p m M i rn = Inr ns" for ns
  proof
    fix x assume "x \<in> set ns"
    from parseNote_noteType [OF ns this] obtain s where
      s: "stringOr h (field rn ''type'') ''quarter'' = Inr s" "noteType x = normaliseNoteType s"
      by blast
    from t have "normaliseNoteType s = Quarter"
    proof
      assume "nullish (field rn ''type'')"
      then have "stringOr h (field rn ''type'') ''quarter'' = Inr ''quarter''"
        by (cases "field rn ''type''" rule: nullish.cases) (simp_all add: stringOr_def)
      with s(1) have "s = ''quarter''" by simp
      then show ?thesis by (simp add: normaliseNoteType_def noteTypeTable_def)
    next
      assume r: "field rn ''type'' = Some (JStr raw) \<and> raw \<notin> fst ` set noteTypeTable
                \<and> raw \<notin> set objectPrototypeKeys"
      with s(1) have "s = raw" by (simp add: stringOr_def)
      with r show ?thesis by (simp add: normaliseNoteType_fallback)
    qed
    with s(2) show "noteType x = Quarter" by simp
  qed
  have d: "parseNote h p m M i rn = Inr []
        \<and> parseNotes h p m M i (xs @ rn # ys)
            = bindE (parseNotes h p m M i xs) (\<lambda>a.
                bindE (parseNotes h p m M (Suc (i + length xs)) ys) (\<lambda>b. Inr (a @ b)))"
    if "\<not> truthy (field rn ''pitch'')"
  proof -
    note e = parseNote_no_pitch [OF that]
    have "parseNotes h p m M (i + length xs) (rn # ys) = parseNotes h p m M (Suc (i + length xs)) ys"
      by (cases "parseNotes h p m M (Suc (i + length xs)) ys") (simp_all add: e)
    then show ?thesis
      using e by (simp only: parseNotes_append)
  qed
  show ?thesis
    using a b r c d by blast
qed

theorem parseScore_failure_and_fallbacks_witness:
  "JObj [] \<noteq> JNull \<and> documentShapeOk (JObj [])
   \<and> parseScore exampleHost (JObj []) = Inl NotPartwise
   \<and> field (JObj [(''pitch'', JObj []), (''type'', JStr ''breve'')]) ''type'' = Some (JStr ''breve'')
   \<and> ''breve'' \<notin> fst ` set noteTypeTable \<and> ''breve'' \<notin> set objectPrototypeKeys
   \<and> noteShapeOk (JObj [(''pitch'', JObj []), (''type'', JStr ''breve'')])
   \<and> map_sum id (map noteType)
         (parseNote exampleHost 0 0 ''1'' 0 (JObj [(''pitch'', JObj []), (''type'', JStr ''breve'')]))
       = Inr [Quarter]
   \<and> \<not> truthy (field (JObj [(''type'', JStr ''half'')]) ''pitch'')
   \<and> map_sum id (map noteId)
         (parseNotes exampleHost 0 0 ''1'' 0
            [exampleNoteJson, JObj [(''type'', JStr ''half'')], exampleNoteJson])
       = Inr [''p0-m1-n0'', ''p0-m1-n2'']"
  using parseScore_failure_and_fallbacks
          [where json = "JObj []" and h = exampleHost
             and rn = "JObj [(''pitch'', JObj []), (''type'', JStr ''breve'')]" and raw = "''breve''"
             and p = 0 and m = 0 and M = "''1''" and i = 0]
        parseScore_failure_and_fallbacks
          [where json = "JObj []" and h = exampleHost
             and rn = "JObj [(''type'', JStr ''half'')]"
             and p = 0 and m = 0 and M = "''1''" and i = 0
             and xs = "[exampleNoteJson]" and ys = "[exampleNoteJson]"]
  by (simp add: documentShapeOk_def noteShapeOk_def convertibleOpt_def
        noteTypeTable_def objectPrototypeKeys_def
        parser_defs exampleScore_def exampleMeasure_def exampleNoteJson_def
        decimal_small digitChar_def)

text \<open>
  Against C8 as stated: the wrapper is present and the parse throws a \<open>TypeError\<close>,
  at \<open>'senza-misura' in raw\<close> when the \<open>time\<close> block of the first measure is a
  string, and at \<open>String(measure._number ?? \<dots>)\<close> when the measure number is an
  object with an own property \<open>toString\<close> that is not a function.
\<close>

theorem wrapper_present_throws_counterexample:
  "truthy (field (exampleScore [JObj [(''attributes'', JObj [(''time'', JStr ''4/4'')])]])
             ''score-partwise'')
   \<and> parseScore exampleHost
         (exampleScore [JObj [(''attributes'', JObj [(''time'', JStr ''4/4'')])]])
       = Inl TypeError
   \<and> truthy (field (exampleScore [JObj [(''_number'', JObj [(''toString'', JNum 0)])]])
               ''score-partwise'')
   \<and> parseScore exampleHost (exampleScore [JObj [(''_number'', JObj [(''toString'', JNum 0)])]])
       = Inl TypeError"
  by (simp add: parser_defs exampleScore_def)

text \<open>
  The part of C8 the amendment leaves out: a duration type that names a member of
  \<open>Object.prototype\<close> is not normalised to \<open>quarter\<close>; the note keeps the member.
\<close>

lemma inherited_member_not_normalised:
  "normaliseNoteType ''constructor'' = Inherited ''constructor''
   \<and> map_sum id (map noteType)
         (parseNote exampleHost 0 0 ''1'' 0
            (JObj [(''pitch'', JObj []), (''type'', JStr ''constructor'')]))
       = Inr [Inherited ''constructor'']"
  by (simp add: normaliseNoteType_def noteTypeTable_def objectPrototypeKeys_def parser_defs)

text \<open>
  C9 (amended). When \<open>parseScore\<close> returns and, within each part, the measure numbers
  (the \<open>_number\<close> of a measure as a string, or its index plus one) are pairwise
  distinct, the ids of the returned notes are pairwise distinct. The result is a
  function of the document (and the host's conversions), so a re-parse gives the same ids.
\<close>

theorem note_ids_distinct:
  assumes "parseScore h json = Inr r" and "measureNumbersDistinct h json"
  shows "distinct (map noteId (noteList r))"
proof -
  from assms(1) obtain q where
    q: "parseParts h (toArray (optField (optField (field json ''score-partwise'') ''part-list'') ''score-part''))
          0 (toArray (optField (field json ''score-partwise'') ''part'')) = Inr q"
    and r: "noteList r = snd q"
    by (auto simp: parseScore_cases bindE_eq_Inr split: if_splits)
  from distinct_parseParts [OF q] assms(2) show ?thesis
    by (simp add: r measureNumbersDistinct_def)
qed

theorem note_ids_distinct_witness:
  "measureNumbersDistinct exampleHost (exampleScore [exampleMeasure ''1'', exampleMeasure ''2''])
   \<and> (case parseScore exampleHost (exampleScore [exampleMeasure ''1'', exampleMeasure ''2'']) of
         Inl e \<Rightarrow> False
       | Inr r \<Rightarrow> map noteId (noteList r) = [''p0-m1-n0'', ''p0-m2-n0'']
                 \<and> distinct (map noteId (noteList r)))"
proof -
  have m: "measureNumbersDistinct exampleHost (exampleScore [exampleMeasure ''1'', exampleMeasure ''2''])"
    by (simp add: measureNumbersDistinct_def measureNumsOfPart_def parser_defs exampleScore_def exampleMeasure_def exampleNoteJson_def
          decimal_small digitChar_def)
  have ids: "map_sum id (map noteId \<circ> noteList) (parseScore exampleHost (exampleScore [exampleMeasure ''1'', exampleMeasure ''2'']))
             = Inr [''p0-m1-n0'', ''p0-m2-n0'']"
    by (simp add: parser_defs exampleScore_def exampleMeasure_def exampleNoteJson_def
          decimal_small digitChar_def)
  show ?thesis
  proof (cases "parseScore exampleHost (exampleScore [exampleMeasure ''1'', exampleMeasure ''2''])")
    case (Inl e)
    with ids show ?thesis by simp
  next
    case (Inr r)
    with ids m note_ids_distinct [OF Inr m] show ?thesis by simp
  qed
qed

text \<open>
  Against C9 as stated: a part with two measures that both carry the number 1, each
  with one note, is accepted, and both notes get the id \<open>p0-m1-n0\<close>.
\<close>

theorem duplicate_measure_number_counterexample:
  "map_sum id (map noteId \<circ> noteList) (parseScore exampleHost (exampleScore [exampleMeasure ''1'', exampleMeasure ''1'']))
     = Inr [''p0-m1-n0'', ''p0-m1-n0'']
   \<and> \<not> distinct [''p0-m1-n0'', ''p0-m1-n0'']"
  by (simp add: parser_defs exampleScore_def exampleMeasure_def exampleNoteJson_def
          decimal_small digitChar_def)

text \<open>
  C10 (amended). For an input that is not \<open>null\<close> and has a truthy \<open>score-partwise\<close>
  wrapper, \<open>parseScore\<close> returns exactly when the document has the shape
  \<open>documentShapeOk\<close> (no \<open>null\<close> entry in the part list or in a measure list, no
  truthy primitive as the \<open>time\<close> block of a first measure, no object with an own
  property \<open>toString\<close> where the parser applies \<open>String\<close> or \<open>Number\<close>), and throws
  a \<open>TypeError\<close> otherwise. Absent entries become empty lists through \<open>toArray\<close>; a
  note is parsed without error exactly when it has the shape \<open>noteShapeOk\<close>, and then
  a missing step, octave and alter default to C, 4 and 0; missing clef, key and time
  blocks default to G on line 2, 0 fifths in major, and 4/4.
\<close>

theorem parseScore_returns_on_shape:
  assumes "json \<noteq> JNull" and "truthy (field json ''score-partwise'')"
  shows "((\<exists>r. parseScore h json = Inr r) \<longleftrightarrow> documentShapeOk json)
         \<and> (\<not> documentShapeOk json \<longrightarrow> parseScore h json = Inl TypeError)
         \<and> toArray None = [] \<and> toArray (Some JNull) = []
         \<and> ((\<exists>ns. parseNote h p m M i rn = Inr ns) \<longleftrightarrow> noteShapeOk rn)
         \<and> (truthy (Some rn) \<and> field rn ''rest'' = None \<and> field rn ''pitch'' = Some pitch
              \<and> truthy (Some pitch) \<and> nullish (field pitch ''step'')
              \<and> nullish (field pitch ''octave'') \<and> nullish (field pitch ''alter'')
            \<longrightarrow> (\<forall>ns. parseNote h p m M i rn = Inr ns
                       \<longrightarrow> map (\<lambda>x. (step x, octave x, alter x)) ns = [(''C'', Num 4, Num 0)]))
         \<and> parseClef h None = Inr \<lparr>sign = ''G'', line = Num 2, octaveChange = Num 0\<rparr>
         \<and> parseKey h None = Inr \<lparr>fifths = Num 0, mode = ''major''\<rparr>
         \<and> parseTime h None = Inr \<lparr>beats = Some (Num 4), beatType = Some (Num 4), senzaMisura = False\<rparr>"
proof -
  have a: "(\<exists>r. parseScore h json = Inr r) \<longleftrightarrow> documentShapeOk json"
    using assms parseScore_returns [of h json] by (simp add: returns_iff)
  have b: "\<not> documentShapeOk json \<longrightarrow> parseScore h json = Inl TypeError"
    using assms by (simp add: parseScore_TypeError)
  have r: "(\<exists>ns. parseNote h p m M i rn = Inr ns) \<longleftrightarrow> noteShapeOk rn"
    using parseNote_returns [of h p m M i rn] by (simp add: returns_iff)
  have nl: "stringOr h v d = Inr d" "numberOr h v k = Inr (Num k)" if "nullish v" for v d k
    using that by (cases v rule: nullish.cases; simp add: stringOr_def numberOr_def)+
  have c: "map (\<lambda>x. (step x, octave x, alter x)) ns = [(''C'', Num 4, Num 0)]"
    if "truthy (Some rn)" "field rn ''rest'' = None" "field rn ''pitch'' = Some pitch"
       "truthy (Some pitch)" "nullish (field pitch ''step'')"
       "nullish (field pitch ''octave'')" "nullish (field pitch ''alter'')"
       "parseNote h p m M i rn = Inr ns" for ns
  proof -
    have "pitch \<noteq> JNull" using that(4) by auto
    then have "optField (Some pitch) k = field pitch k" for k
      by (cases pitch) (simp_all add: optField_def)
    then show ?thesis
      using that
      by (auto simp: parseNote_def Let_def nl bindE_eq_Inr toUpperCase_def lowerLetters_def
            upperLetters_def)
  qed
  have e: "toArray None = []" "toArray (Some JNull) = []"
    "parseClef h None = Inr \<lparr>sign = ''G'', line = Num 2, octaveChange = Num 0\<rparr>"
    "parseKey h None = Inr \<lparr>fifths = Num 0, mode = ''major''\<rparr>"
    "parseTime h None = Inr \<lparr>beats = Some (Num 4), beatType = Some (Num 4), senzaMisura = False\<rparr>"
    by (simp_all add: toArray_def parseClef_def parseKey_def parseTime_def)
  show ?thesis
    using a b r c e by blast
qed

theorem parseScore_returns_on_shape_witness:
  "(exampleScore [exampleMeasure ''1'', exampleMeasure ''2'']) \<noteq> JNull
   \<and> truthy (field (exampleScore [exampleMeasure ''1'', exampleMeasure ''2'']) ''score-partwise'')
   \<and> documentShapeOk (exampleScore [exampleMeasure ''1'', exampleMeasure ''2''])
   \<and> returns (parseScore exampleHost (exampleScore [exampleMeasure ''1'', exampleMeasure ''2'']))
   \<and> truthy (Some (JObj [(''pitch'', JObj [])]))
   \<and> field (JObj [(''pitch'', JObj [])]) ''rest'' = None
   \<and> field (JObj [(''pitch'', JObj [])]) ''pitch'' = Some (JObj [])
   \<and> truthy (Some (JObj [])) \<and> nullish (field (JObj []) ''step'')
   \<and> nullish (field (JObj []) ''octave'') \<and> nullish (field (JObj []) ''alter'')
   \<and> noteShapeOk (JObj [(''pitch'', JObj [])])
   \<and> map_sum id (map (\<lambda>x. (step x, octave x, alter x)))
         (parseNote exampleHost 0 0 ''1'' 0 (JObj [(''pitch'', JObj [])]))
       = Inr [(''C'', Num 4, Num 0)]
   \<and> \<not> documentShapeOk (exampleScore [JNull])
   \<and> parseScore exampleHost (exampleScore [JNull]) = Inl TypeError
   \<and> \<not> documentShapeOk (exampleScore [JObj [(''_number'', JObj [(''toString'', JNum 0)])]])
   \<and> parseScore exampleHost (exampleScore [JObj [(''_number'', JObj [(''toString'', JNum 0)])]])
       = Inl TypeError"
  using parseScore_returns_on_shape
          [where json = "exampleScore [exampleMeasure ''1'', exampleMeasure ''2'']" and h = exampleHost
             and rn = "JObj [(''pitch'', JObj [])]" and pitch = "JObj []"
             and p = 0 and m = 0 and M = "''1''" and i = 0]
        parseScore_returns_on_shape
          [where json = "exampleScore [JNull]" and h = exampleHost
             and rn = "JObj [(''pitch'', JObj [])]" and pitch = "JObj []"
             and p = 0 and m = 0 and M = "''1''" and i = 0]
        parseScore_returns_on_shape
          [where json = "exampleScore [JObj [(''_number'', JObj [(''toString'', JNum 0)])]]"
             and h = exampleHost
             and rn = "JObj [(''pitch'', JObj [])]" and pitch = "JObj []"
             and p = 0 and m = 0 and M = "''1''" and i = 0]
  by (simp add: returns_iff documentShapeOk_def partShapeOk_def timeShapeOk_def clefShapeOk_def
        keyShapeOk_def measureShapeOk_def noteShapeOk_def convertibleOpt_def exampleScore_def
        exampleMeasure_def exampleNoteJson_def parser_defs decimal_small digitChar_def)

text \<open>
  Against C10 as stated: the wrapper is present and the parse throws a \<open>TypeError\<close>,
  at the read of \<open>part.measure\<close> when the part list holds a \<open>null\<close>, and at
  \<open>String(step)\<close> when the step of a pitch is an object with an own property
  \<open>toString\<close> that is not a function.
\<close>

theorem null_part_throws_counterexample:
  "truthy (field (JObj [(''score-partwise'', JObj [(''part'', JArr [JNull])])]) ''score-partwise'')
   \<and> parseScore exampleHost (JObj [(''score-partwise'', JObj [(''part'', JArr [JNull])])])
       = Inl TypeError
   \<and> truthy (field (exampleScore [JObj [(''note'',
               JObj [(''pitch'', JObj [(''step'', JObj [(''toString'', JNum 0)])])])]])
             ''score-partwise'')
   \<and> parseScore exampleHost
         (exampleScore [JObj [(''note'',
            JObj [(''pitch'', JObj [(''step'', JObj [(''toString'', JNum 0)])])])]])
       = Inl TypeError"
  by (simp add: parser_defs exampleScore_def decimal_small digitChar_def)

end
